theory Spec2Isabelle
  imports Complex_Main "HOL-Library.Char_ord" "HOL-Library.List_Lexorder"
begin

section \<open>Weekly inventory allocation: the data\<close>

text \<open>
  The development embeds \<^verbatim>\<open>calcular_asignacion_semanal_secuencial\<close> of
  \<^verbatim>\<open>src/database.py\<close> and the month table of
  \<^verbatim>\<open>get_distribucion_semanal_inventario\<close>.

  Quantities are Python floats in the source; here they are exact rationals, so rounding
  error of the floating-point unit is not modelled. Where a product falls on a tie in exact
  arithmetic the float may fall just beside it (the source computes 11.0 * (15.0 / 22.0) as
  7.499999999999999 and rounds to 7, the model gets 7.5 and rounds to 8); the sample
  inputs below stay away from such ties. The current ISO week, read from the
  clock by \<^verbatim>\<open>datetime.now().isocalendar()[1]\<close>, is the parameter
  \<open>semana_actual\<close>. Lines printed by the function are returned as a list of messages.
\<close>

type_synonym fecha = "int \<times> int \<times> int"

text \<open>
  One entry of \<^verbatim>\<open>meses_config\<close>. The dates are the strings
  \<^verbatim>\<open>'YYYY-MM-DD'\<close> of the source, written as (year, month, day).
\<close>

record config =
  semanas :: "int list"
  fechas_inicio :: "fecha list"
  fechas_fin :: "fecha list"
  factores_estacionalidad :: "(int \<times> rat) list"

definition diciembre_2025 :: config where
  "diciembre_2025 = \<lparr>
     semanas = [49, 50, 51, 52],
     fechas_inicio = [(2025, 11, 30), (2025, 12, 7), (2025, 12, 14), (2025, 12, 21)],
     fechas_fin = [(2025, 12, 6), (2025, 12, 13), (2025, 12, 20), (2025, 12, 27)],
     factores_estacionalidad =
       [(49, 12832 / 10000), (50, 14456 / 10000), (51, 12287 / 10000), (52, 13010 / 10000)] \<rparr>"

definition enero_2026 :: config where
  "enero_2026 = \<lparr>
     semanas = [53, 1, 2, 3, 4],
     fechas_inicio = [(2025, 12, 28), (2026, 1, 4), (2026, 1, 11), (2026, 1, 18), (2026, 1, 25)],
     fechas_fin = [(2026, 1, 3), (2026, 1, 10), (2026, 1, 17), (2026, 1, 24), (2026, 1, 31)],
     factores_estacionalidad = [(53, 1), (1, 1), (2, 1), (3, 1), (4, 1)] \<rparr>"

text \<open>A row of the data frame \<open>df\<close> (the columns the function reads).\<close>

record fila =
  sku :: string
  descripcion :: string
  semana_num :: int
  inventario_inicial :: rat
  arribos_esperados :: rat
  forecast_b2b :: rat
  ventas_reales :: rat
  cupo_mensual_total :: rat
  cupo_mensual_canal :: rat
  Channel :: string
  peso_canal :: rat

text \<open>
  The value of \<^verbatim>\<open>canales_data[canal]\<close>. The key \<^verbatim>\<open>cupos_semanales\<close>
  is written once and never read, so it is not carried.
\<close>

record canal_info =
  cupo_mensual :: rat
  peso_canal_info :: rat
  bolsa_disponible :: rat

text \<open>
  What one SKU's pass carries from week to week: the dictionary \<^verbatim>\<open>canales_data\<close>
  (in insertion order) and the two running variables.
\<close>

record estado =
  canales_data :: "(string \<times> canal_info) list"
  inventario_disponible_semana_anterior :: rat
  asignaciones_acumuladas :: int

text \<open>
  A row of the result. Keys that share a name with a column of \<open>df\<close> carry the suffix
  \<open>_res\<close>. The keys \<^verbatim>\<open>cupo_semanal_teorico_canal\<close> and
  \<^verbatim>\<open>asignacion_original\<close> always repeat \<open>asignacion_canal\<close>, and
  \<^verbatim>\<open>redistribucion_recibida\<close> and \<^verbatim>\<open>fuente_redistribucion\<close> are
  constant; they are left out.
\<close>

record resultado =
  sku_res :: string
  descripcion_res :: string
  semana :: int
  canal :: string
  inventario_inicial_res :: rat
  arribos_esperados_res :: rat
  forecast_b2b_res :: rat
  inventario_fisico :: rat
  cupo_mensual_total_res :: rat
  cupo_mensual_canal_res :: rat
  cupo_canal_restante :: rat
  asignacion_canal :: int
  ventas_reales_res :: rat
  ventas_reales_informativas :: rat
  peso_canal_res :: rat
  asignacion_semana :: int
  ventas_totales_semana :: rat
  ventas_totales_informativas :: rat

datatype mensaje =
  WARNING string int rat rat
  | OK string int rat rat rat

section \<open>Helpers of the run-time\<close>

text \<open>Python's \<^verbatim>\<open>round\<close> on a float: to the nearest integer, a tie to the even one.\<close>

definition py_round :: "rat \<Rightarrow> int" where
  "py_round x =
     (let f = \<lfloor>x\<rfloor>; d = x - of_int f
      in if d < 1 / 2 then f
         else if 1 / 2 < d then f + 1
         else if even f then f else f + 1)"

text \<open>\<^verbatim>\<open>Series.unique()\<close>: the distinct values in order of first appearance.\<close>

fun unique :: "'a list \<Rightarrow> 'a list" where
  "unique [] = []"
| "unique (x # xs) = x # unique (filter (\<lambda>y. y \<noteq> x) xs)"

text \<open>The group keys of \<^verbatim>\<open>groupby\<close>: distinct and sorted.\<close>

definition claves_groupby :: "string list \<Rightarrow> string list" where
  "claves_groupby ks = sort (unique ks)"

text \<open>\<^verbatim>\<open>factores.get(s, 1.0)\<close>\<close>

definition factor_de :: "(int \<times> rat) list \<Rightarrow> int \<Rightarrow> rat" where
  "factor_de factores s = (case map_of factores s of None \<Rightarrow> 1 | Some f \<Rightarrow> f)"

section \<open>The engine\<close>


definition inventario_inicial_real_de :: "rat \<Rightarrow> rat \<Rightarrow> rat" where
  "inventario_inicial_real_de inv_inicial_db anterior =
     (if 0 < inv_inicial_db then inv_inicial_db else anterior)"

definition inventario_fisico_de :: "rat \<Rightarrow> rat \<Rightarrow> rat \<Rightarrow> rat \<Rightarrow> rat" where
  "inventario_fisico_de inv_inicial_db arribos forecast anterior =
     max 0 (inventario_inicial_real_de inv_inicial_db anterior + arribos - forecast)"

text \<open>The initial \<^verbatim>\<open>canales_data\<close> and \<^verbatim>\<open>cupo_mensual_total_sku\<close>.\<close>

definition canales_iniciales :: "fila list \<Rightarrow> (string \<times> canal_info) list" where
  "canales_iniciales grupo_sku =
     concat (map (\<lambda>c. case filter (\<lambda>r. Channel r = c) grupo_sku of
                         [] \<Rightarrow> []
                       | r # _ \<Rightarrow> [(c, \<lparr> cupo_mensual = cupo_mensual_canal r,
                                        peso_canal_info = peso_canal r,
                                        bolsa_disponible = cupo_mensual_canal r \<rparr>)])
                 (unique (map Channel grupo_sku)))"

definition cupo_mensual_total_sku :: "(string \<times> canal_info) list \<Rightarrow> rat" where
  "cupo_mensual_total_sku cd = sum_list (map (\<lambda>(c, i). cupo_mensual i) cd)"

definition estado_inicial :: "fila list \<Rightarrow> estado" where
  "estado_inicial grupo_sku =
     \<lparr> canales_data = canales_iniciales grupo_sku,
       inventario_disponible_semana_anterior = 0,
       asignaciones_acumuladas = 0 \<rparr>"

text \<open>\<^verbatim>\<open>canales_data[c]['bolsa_disponible']\<close> in a state (0 for a channel that is not a key).\<close>

definition bolsa_de :: "estado \<Rightarrow> string \<Rightarrow> rat" where
  "bolsa_de st c = (case map_of (canales_data st) c of None \<Rightarrow> 0 | Some i \<Rightarrow> bolsa_disponible i)"

text \<open>Step 1: real sales of the configured weeks before this one that have ended.\<close>

definition ventas_reales_pasadas :: "config \<Rightarrow> int \<Rightarrow> fila list \<Rightarrow> int \<Rightarrow> rat" where
  "ventas_reales_pasadas cfg semana_actual grupo_sku w =
     sum_list (map (\<lambda>s_pasada.
                      sum_list (map ventas_reales
                                  (filter (\<lambda>r. semana_num r = s_pasada) grupo_sku)))
                (filter (\<lambda>s_pasada. s_pasada < w \<and> s_pasada < semana_actual) (semanas cfg)))"

definition inventario_disponible_mes :: "config \<Rightarrow> int \<Rightarrow> fila list \<Rightarrow> rat \<Rightarrow> estado \<Rightarrow> int \<Rightarrow> rat"
  where
  "inventario_disponible_mes cfg semana_actual grupo_sku cupo_total st w =
     cupo_total - ventas_reales_pasadas cfg semana_actual grupo_sku w
       - of_int (asignaciones_acumuladas st)"

text \<open>Steps 2 and 3: the share of this week among the weeks from it onwards.\<close>

definition suma_factores_restantes :: "config \<Rightarrow> int \<Rightarrow> rat" where
  "suma_factores_restantes cfg w =
     sum_list (map (factor_de (factores_estacionalidad cfg))
                 (filter (\<lambda>s. w \<le> s) (semanas cfg)))"

definition proporcion_semana :: "config \<Rightarrow> int \<Rightarrow> rat" where
  "proporcion_semana cfg w =
     (if 0 < suma_factores_restantes cfg w
      then factor_de (factores_estacionalidad cfg) w / suma_factores_restantes cfg w
      else 0)"

definition inventario_teorico_semana :: "config \<Rightarrow> int \<Rightarrow> fila list \<Rightarrow> rat \<Rightarrow> estado \<Rightarrow> int \<Rightarrow> rat"
  where
  "inventario_teorico_semana cfg semana_actual grupo_sku cupo_total st w =
     inventario_disponible_mes cfg semana_actual grupo_sku cupo_total st w
       * proporcion_semana cfg w"

text \<open>Step 5: the sum of the positive balances.\<close>

definition suma_bolsas :: "(string \<times> canal_info) list \<Rightarrow> rat" where
  "suma_bolsas cd =
     sum_list (map (\<lambda>(c, i). bolsa_disponible i)
                 (filter (\<lambda>(c, i). 0 < bolsa_disponible i) cd))"

text \<open>Step 6: the total to distribute in the week.\<close>

definition inventario_semanal_total :: "int \<Rightarrow> int \<Rightarrow> rat \<Rightarrow> rat \<Rightarrow> rat \<Rightarrow> rat" where
  "inventario_semanal_total semana_actual w fisico teorico bolsas =
     (if semana_actual \<le> w then teorico else min fisico (min teorico bolsas))"

text \<open>Steps 3.1 to 3.4 for one channel.\<close>

definition asignar_canal :: "rat \<Rightarrow> rat \<Rightarrow> rat \<Rightarrow> int" where
  "asignar_canal total_semana bolsas bolsa =
     (let factor_canal = (if 0 < bolsas then bolsa / bolsas else 0);
          asignacion_teorica = total_semana * factor_canal
      in py_round (min asignacion_teorica bolsa))"

text \<open>The sales that enter the calculation: the recorded ones of an ended week, else 0.\<close>

definition ventas_para_calculo :: "int \<Rightarrow> int \<Rightarrow> rat \<Rightarrow> rat" where
  "ventas_para_calculo semana_actual w ventas_reales_bd =
     (if w < semana_actual then ventas_reales_bd else 0)"

text \<open>Step 3.5: the balance after the week.\<close>

definition actualizar_bolsa :: "rat \<Rightarrow> rat \<Rightarrow> rat" where
  "actualizar_bolsa bolsa ventas_reales_canal = max 0 (bolsa - ventas_reales_canal)"

text \<open>The variables of one week that the loop over the channels reads.\<close>

record vars_semana =
  v_sku :: string
  v_semana_num :: int
  v_semana_actual :: int
  v_datos_semana :: "fila list"
  v_inventario_inicial_real :: rat
  v_arribos :: rat
  v_forecast_b2b :: rat
  v_inventario_fisico :: rat
  v_inventario_semanal_total :: rat
  v_suma_bolsas :: rat

definition fila_resultado :: "vars_semana \<Rightarrow> string \<Rightarrow> canal_info \<Rightarrow> fila \<Rightarrow> resultado" where
  "fila_resultado v c info row_canal =
     (let ventas_reales_bd = ventas_reales row_canal;
          ventas_reales_canal =
            ventas_para_calculo (v_semana_actual v) (v_semana_num v) ventas_reales_bd
      in \<lparr> sku_res = v_sku v,
           descripcion_res = descripcion row_canal,
           semana = v_semana_num v,
           canal = c,
           inventario_inicial_res = v_inventario_inicial_real v,
           arribos_esperados_res = v_arribos v,
           forecast_b2b_res = v_forecast_b2b v,
           inventario_fisico = v_inventario_fisico v,
           cupo_mensual_total_res = cupo_mensual_total row_canal,
           cupo_mensual_canal_res = cupo_mensual info,
           cupo_canal_restante = actualizar_bolsa (bolsa_disponible info) ventas_reales_canal,
           asignacion_canal =
             asignar_canal (v_inventario_semanal_total v) (v_suma_bolsas v) (bolsa_disponible info),
           ventas_reales_res = ventas_reales_canal,
           ventas_reales_informativas = ventas_reales_bd,
           peso_canal_res = peso_canal_info info,
           asignacion_semana = 0,
           ventas_totales_semana = 0,
           ventas_totales_informativas = 0 \<rparr>)"

text \<open>
  The loop over \<^verbatim>\<open>canales_data.keys()\<close>: a channel with no row in the week is
  skipped and keeps its balance; the others get a row and their balance is updated.
\<close>

fun procesar_canales ::
  "vars_semana \<Rightarrow> (string \<times> canal_info) list \<Rightarrow> (string \<times> canal_info) list \<times> resultado list"
  where
  "procesar_canales v [] = ([], [])"
| "procesar_canales v ((c, info) # resto) =
     (case filter (\<lambda>r. Channel r = c) (v_datos_semana v) of
        [] \<Rightarrow>
          (let (cd', filas) = procesar_canales v resto
           in ((c, info) # cd', filas))
      | row_canal # _ \<Rightarrow>
          (let r = fila_resultado v c info row_canal;
               (cd', filas) = procesar_canales v resto
           in ((c, info \<lparr> bolsa_disponible := cupo_canal_restante r \<rparr>) # cd', r # filas)))"

text \<open>
  The physical inventory of a week and the total to distribute in it, from the state
  before the week and the first row of the week (\<^verbatim>\<open>primera_fila\<close>).
\<close>

definition fisico_semana :: "estado \<Rightarrow> fila \<Rightarrow> rat" where
  "fisico_semana st primera_fila =
     inventario_fisico_de (inventario_inicial primera_fila) (arribos_esperados primera_fila)
       (forecast_b2b primera_fila) (inventario_disponible_semana_anterior st)"

definition total_a_distribuir ::
  "config \<Rightarrow> int \<Rightarrow> fila list \<Rightarrow> rat \<Rightarrow> estado \<Rightarrow> int \<Rightarrow> fila \<Rightarrow> rat"
  where
  "total_a_distribuir cfg semana_actual grupo_sku cupo_total st w primera_fila =
     inventario_semanal_total semana_actual w (fisico_semana st primera_fila)
       (inventario_teorico_semana cfg semana_actual grupo_sku cupo_total st w)
       (suma_bolsas (canales_data st))"

definition vars_de_semana ::
  "config \<Rightarrow> int \<Rightarrow> string \<Rightarrow> fila list \<Rightarrow> rat \<Rightarrow> estado \<Rightarrow> int \<Rightarrow> fila \<Rightarrow> fila list
     \<Rightarrow> vars_semana"
  where
  "vars_de_semana cfg semana_actual k grupo_sku cupo_total st w primera_fila datos_semana =
     \<lparr> v_sku = k, v_semana_num = w, v_semana_actual = semana_actual,
       v_datos_semana = datos_semana,
       v_inventario_inicial_real =
         inventario_inicial_real_de (inventario_inicial primera_fila)
           (inventario_disponible_semana_anterior st),
       v_arribos = arribos_esperados primera_fila,
       v_forecast_b2b = forecast_b2b primera_fila,
       v_inventario_fisico = fisico_semana st primera_fila,
       v_inventario_semanal_total =
         total_a_distribuir cfg semana_actual grupo_sku cupo_total st w primera_fila,
       v_suma_bolsas = suma_bolsas (canales_data st) \<rparr>"

text \<open>One iteration of the loop over the weeks; a week with no row is skipped.\<close>

definition procesar_semana ::
  "config \<Rightarrow> int \<Rightarrow> string \<Rightarrow> fila list \<Rightarrow> rat \<Rightarrow> estado \<Rightarrow> int \<Rightarrow> estado \<times> resultado list"
  where
  "procesar_semana cfg semana_actual k grupo_sku cupo_total st w =
     (case filter (\<lambda>r. semana_num r = w) grupo_sku of
        [] \<Rightarrow> (st, [])
      | primera_fila # otras \<Rightarrow>
          (let v = vars_de_semana cfg semana_actual k grupo_sku cupo_total st w
                     primera_fila (primera_fila # otras);
               (cd', asignaciones_semana) = procesar_canales v (canales_data st);
               asignacion_total_semana = sum_list (map asignacion_canal asignaciones_semana);
               ventas_totales = sum_list (map ventas_reales_res asignaciones_semana);
               ventas_informativas =
                 sum_list (map ventas_reales_informativas asignaciones_semana)
           in (\<lparr> canales_data = cd',
                 inventario_disponible_semana_anterior =
                   max 0 (v_inventario_fisico v - ventas_totales),
                 asignaciones_acumuladas =
                   (if semana_actual \<le> w
                    then asignaciones_acumuladas st + asignacion_total_semana
                    else asignaciones_acumuladas st) \<rparr>,
               map (\<lambda>r. r \<lparr> asignacion_semana := asignacion_total_semana,
                             ventas_totales_semana := ventas_totales,
                             ventas_totales_informativas := ventas_informativas \<rparr>)
                 asignaciones_semana)))"

text \<open>
  The loop over the weeks, from a given state: for each week the state after it and the
  rows it appended to \<^verbatim>\<open>resultados\<close>.
\<close>

fun procesar_semanas ::
  "config \<Rightarrow> int \<Rightarrow> string \<Rightarrow> fila list \<Rightarrow> rat \<Rightarrow> estado \<Rightarrow> int list
     \<Rightarrow> (estado \<times> resultado list) list"
  where
  "procesar_semanas cfg semana_actual k grupo_sku cupo_total st [] = []"
| "procesar_semanas cfg semana_actual k grupo_sku cupo_total st (w # ws) =
     (let (st', filas) = procesar_semana cfg semana_actual k grupo_sku cupo_total st w
      in (st', filas) # procesar_semanas cfg semana_actual k grupo_sku cupo_total st' ws)"

text \<open>The order in which the weeks of the month are visited: \<^verbatim>\<open>sorted(config['semanas'])\<close>.\<close>

definition semanas_procesadas :: "config \<Rightarrow> int list" where
  "semanas_procesadas cfg = sort (semanas cfg)"

definition traza_sku :: "config \<Rightarrow> int \<Rightarrow> string \<Rightarrow> fila list \<Rightarrow> (estado \<times> resultado list) list"
  where
  "traza_sku cfg semana_actual k grupo_sku =
     procesar_semanas cfg semana_actual k grupo_sku
       (cupo_mensual_total_sku (canales_iniciales grupo_sku))
       (estado_inicial grupo_sku) (semanas_procesadas cfg)"

definition procesar_sku :: "config \<Rightarrow> int \<Rightarrow> string \<Rightarrow> fila list \<Rightarrow> resultado list" where
  "procesar_sku cfg semana_actual k grupo_sku =
     concat (map snd (traza_sku cfg semana_actual k grupo_sku))"

text \<open>The final validation, one printed line per SKU of the result.\<close>

definition validacion_sku :: "string \<Rightarrow> resultado list \<Rightarrow> mensaje list" where
  "validacion_sku k filas =
     (case filas of
        [] \<Rightarrow> []
      | primera # _ \<Rightarrow>
          (let total_asignado = sum_list (map asignacion_canal filas);
               total_vendido = sum_list (map ventas_reales_res filas);
               cupo_mensual = cupo_mensual_total_res primera;
               diferencia_asignacion = \<bar>of_int total_asignado - cupo_mensual\<bar>;
               diferencia_ventas = cupo_mensual - total_vendido;
               tolerancia = max (cupo_mensual * (1 / 100)) 10
           in if tolerancia < diferencia_asignacion
              then [WARNING k total_asignado cupo_mensual diferencia_asignacion]
              else [OK k total_asignado total_vendido cupo_mensual diferencia_ventas]))"

definition validacion :: "resultado list \<Rightarrow> mensaje list" where
  "validacion resultados =
     concat (map (\<lambda>k. validacion_sku k (filter (\<lambda>r. sku_res r = k) resultados))
               (claves_groupby (map sku_res resultados)))"

definition calcular_asignacion_semanal_secuencial ::
  "fila list \<Rightarrow> config \<Rightarrow> int \<Rightarrow> resultado list \<times> mensaje list"
  where
  "calcular_asignacion_semanal_secuencial df cfg semana_actual =
     (let resultados =
            concat (map (\<lambda>k. procesar_sku cfg semana_actual k (filter (\<lambda>r. sku r = k) df))
                      (claves_groupby (map sku df)))
      in (resultados, validacion resultados))"

section \<open>Auxiliary notions for the statements\<close>

text \<open>The effect of one week on one entry of \<^verbatim>\<open>canales_data\<close>, and the rows it yields.\<close>

definition canal_tras_semana :: "vars_semana \<Rightarrow> string \<Rightarrow> canal_info \<Rightarrow> canal_info" where
  "canal_tras_semana v c info =
     (case filter (\<lambda>r. Channel r = c) (v_datos_semana v) of
        [] \<Rightarrow> info
      | row_canal # _ \<Rightarrow>
          info \<lparr> bolsa_disponible := cupo_canal_restante (fila_resultado v c info row_canal) \<rparr>)"

definition filas_canal :: "vars_semana \<Rightarrow> string \<Rightarrow> canal_info \<Rightarrow> resultado list" where
  "filas_canal v c info =
     (case filter (\<lambda>r. Channel r = c) (v_datos_semana v) of
        [] \<Rightarrow> []
      | row_canal # _ \<Rightarrow> [fila_resultado v c info row_canal])"

text \<open>The sum of the channel assignments of a week, over a channel table.\<close>

definition asignado_canales :: "rat \<Rightarrow> (string \<times> canal_info) list \<Rightarrow> int" where
  "asignado_canales t cd =
     (\<Sum>(c, i)\<leftarrow>cd. asignar_canal t (suma_bolsas cd) (bolsa_disponible i))"

text \<open>The state after a list of weeks.\<close>

fun estado_tras ::
  "config \<Rightarrow> int \<Rightarrow> string \<Rightarrow> fila list \<Rightarrow> rat \<Rightarrow> estado \<Rightarrow> int list \<Rightarrow> estado"
  where
  "estado_tras cfg semana_actual k grupo_sku cupo_total st [] = st"
| "estado_tras cfg semana_actual k grupo_sku cupo_total st (w # ws) =
     estado_tras cfg semana_actual k grupo_sku cupo_total
       (fst (procesar_semana cfg semana_actual k grupo_sku cupo_total st w)) ws"

text \<open>The units assigned to one channel over all the rows of a plan.\<close>

definition total_asignado_canal :: "string \<Rightarrow> resultado list \<Rightarrow> int" where
  "total_asignado_canal c filas =
     sum_list (map asignacion_canal (filter (\<lambda>r. canal r = c) filas))"

text \<open>
  The weeks of a month in the order of their start dates; \<^verbatim>\<open>'YYYY-MM-DD'\<close> strings
  compare like the number YYYYMMDD.
\<close>

definition clave_fecha :: "fecha \<Rightarrow> int" where
  "clave_fecha f = (case f of (anio, mes, dia) \<Rightarrow> anio * 10000 + mes * 100 + dia)"

definition orden_cronologico :: "config \<Rightarrow> int list" where
  "orden_cronologico cfg =
     map fst (sort_key (\<lambda>(w, f). clave_fecha f) (zip (semanas cfg) (fechas_inicio cfg)))"

section \<open>The calendar\<close>

text \<open>
  \<^verbatim>\<open>date.isocalendar()[1]\<close> as the Python library computes it: the ordinal of a date,
  the Monday of ISO week 1 of a year, and the week number. Dates are (year, month, day).
\<close>

definition is_leap :: "int \<Rightarrow> bool" where
  "is_leap y = (y mod 4 = 0 \<and> (y mod 100 \<noteq> 0 \<or> y mod 400 = 0))"

definition days_before_year :: "int \<Rightarrow> int" where
  "days_before_year y = (y - 1) * 365 + (y - 1) div 4 - (y - 1) div 100 + (y - 1) div 400"

definition days_in_month :: "int \<Rightarrow> int \<Rightarrow> int" where
  "days_in_month y m =
     (if m = 2 then (if is_leap y then 29 else 28)
      else if m = 4 \<or> m = 6 \<or> m = 9 \<or> m = 11 then 30 else 31)"

definition days_before_month :: "int \<Rightarrow> int \<Rightarrow> int" where
  "days_before_month y m = sum_list (map (days_in_month y) [1..m - 1])"

definition ymd2ord :: "fecha \<Rightarrow> int" where
  "ymd2ord f = (case f of (y, m, d) \<Rightarrow> days_before_year y + days_before_month y m + d)"

definition isoweek1monday :: "int \<Rightarrow> int" where
  "isoweek1monday y =
     (let firstday = ymd2ord (y, 1, 1);
          firstweekday = (firstday + 6) mod 7;
          week1monday = firstday - firstweekday
      in if 3 < firstweekday then week1monday + 7 else week1monday)"

text \<open>\<open>semana_actual\<close> on the day \<open>hoy\<close>: \<^verbatim>\<open>datetime.now().isocalendar()[1]\<close>.\<close>

definition semana_iso :: "fecha \<Rightarrow> int" where
  "semana_iso hoy =
     (case hoy of (y, m, d) \<Rightarrow>
        (let today = ymd2ord hoy;
             week = (today - isoweek1monday y) div 7
         in if week < 0 then (today - isoweek1monday (y - 1)) div 7 + 1
            else if 52 \<le> week \<and> isoweek1monday (y + 1) \<le> today then 1
            else week + 1))"

text \<open>
  A closed week as the specification words it: the end date of the week, from
  \<^verbatim>\<open>fechas_fin\<close> of the month table, is before today.
\<close>

definition semana_terminada :: "config \<Rightarrow> fecha \<Rightarrow> int \<Rightarrow> bool" where
  "semana_terminada cfg hoy w =
     (case map_of (zip (semanas cfg) (fechas_fin cfg)) w of
        None \<Rightarrow> False
      | Some fin \<Rightarrow> clave_fecha fin < clave_fecha hoy)"

section \<open>Sample inputs\<close>

definition fila_de_ejemplo ::
  "string \<Rightarrow> int \<Rightarrow> string \<Rightarrow> rat \<Rightarrow> rat \<Rightarrow> rat \<Rightarrow> rat \<Rightarrow> fila"
  where
  "fila_de_ejemplo k w c cupo cupo_total inv0 ventas =
     \<lparr> sku = k, descripcion = ''producto'', semana_num = w, inventario_inicial = inv0,
       arribos_esperados = 0, forecast_b2b = 0, ventas_reales = ventas,
       cupo_mensual_total = cupo_total, cupo_mensual_canal = cupo, Channel = c,
       peso_canal = cupo / cupo_total \<rparr>"

definition config_dos_semanas :: config where
  "config_dos_semanas = \<lparr> semanas = [1, 2],
     fechas_inicio = [(2026, 1, 4), (2026, 1, 11)], fechas_fin = [(2026, 1, 10), (2026, 1, 17)],
     factores_estacionalidad = [(1, 1), (2, 1)] \<rparr>"

definition config_tres_a_uno :: config where
  "config_tres_a_uno = \<lparr> semanas = [1, 2],
     fechas_inicio = [(2026, 1, 4), (2026, 1, 11)], fechas_fin = [(2026, 1, 10), (2026, 1, 17)],
     factores_estacionalidad = [(1, 3), (2, 1)] \<rparr>"

text \<open>One channel with quota 1000 and no sales.\<close>

definition df_un_canal :: "fila list" where
  "df_un_canal =
     [fila_de_ejemplo ''S'' 1 ''A'' 1000 1000 1000 0,
      fila_de_ejemplo ''S'' 2 ''A'' 1000 1000 1000 0]"

text \<open>Two channels with quota 100 each; channel A sells 100 units in week 1.\<close>

definition df_dos_canales :: "fila list" where
  "df_dos_canales =
     [fila_de_ejemplo ''S'' 1 ''A'' 100 200 1000 100,
      fila_de_ejemplo ''S'' 1 ''B'' 100 200 1000 0,
      fila_de_ejemplo ''S'' 2 ''A'' 100 200 1000 0,
      fila_de_ejemplo ''S'' 2 ''B'' 100 200 1000 0]"

text \<open>
  Quotas 100, 100 and 0.75; channel A sells 300 units in week 1, more than the whole
  quota of the SKU.
\<close>

definition df_tres_canales :: "fila list" where
  "df_tres_canales =
     [fila_de_ejemplo ''S'' 1 ''A'' 100 (803 / 4) 1000 300,
      fila_de_ejemplo ''S'' 1 ''B'' 100 (803 / 4) 1000 0,
      fila_de_ejemplo ''S'' 1 ''C'' (3 / 4) (803 / 4) 1000 0,
      fila_de_ejemplo ''S'' 2 ''A'' 100 (803 / 4) 1000 0,
      fila_de_ejemplo ''S'' 2 ''B'' 100 (803 / 4) 1000 0,
      fila_de_ejemplo ''S'' 2 ''C'' (3 / 4) (803 / 4) 1000 0]"

text \<open>Rows for the first two weeks of \<^verbatim>\<open>'Enero 2026'\<close>.\<close>

definition df_enero :: "fila list" where
  "df_enero =
     [fila_de_ejemplo ''S'' 53 ''A'' 100 100 1000 0,
      fila_de_ejemplo ''S'' 1 ''A'' 100 100 1000 0]"


text \<open>
  \<^verbatim>\<open>'Enero 2026'\<close>, one channel with quota 100 and 5 units of stock every week; 10 units
  are sold in week 53 and 40 in week 1.
\<close>

definition df_enero_un_canal :: "fila list" where
  "df_enero_un_canal =
     [fila_de_ejemplo ''S'' 53 ''A'' 100 100 5 10,
      fila_de_ejemplo ''S'' 1 ''A'' 100 100 5 40,
      fila_de_ejemplo ''S'' 2 ''A'' 100 100 5 0,
      fila_de_ejemplo ''S'' 3 ''A'' 100 100 5 0,
      fila_de_ejemplo ''S'' 4 ''A'' 100 100 5 0]"

text \<open>
  \<^verbatim>\<open>'Enero 2026'\<close>, channel A with quota 1000 and seven channels with quota 3, ample
  stock and no sales.
\<close>

definition canales_ocho :: "(string \<times> rat) list" where
  "canales_ocho =
     [(''A'', 1000), (''B'', 3), (''C'', 3), (''D'', 3), (''E'', 3), (''F'', 3), (''G'', 3),
      (''H'', 3)]"

definition df_ocho_canales :: "fila list" where
  "df_ocho_canales =
     concat (map (\<lambda>w. map (\<lambda>(c, q). fila_de_ejemplo ''S'' w c q 1021 5000 0) canales_ocho)
               [53, 1, 2, 3, 4])"

section \<open>Rounding\<close>

lemma py_round_of_int: "py_round (of_int n) = n"
  by (simp add: py_round_def)

lemma py_round_lower: "x - 1 / 2 \<le> of_int (py_round x)"
  unfolding py_round_def Let_def by (auto; linarith)

lemma py_round_upper: "of_int (py_round x) \<le> x + 1 / 2"
  unfolding py_round_def Let_def by (auto; linarith)

lemma py_round_nonneg: "0 \<le> x \<Longrightarrow> 0 \<le> py_round x"
  unfolding py_round_def Let_def by auto

lemma py_round_floor_le: "\<lfloor>x\<rfloor> \<le> py_round x"
  unfolding py_round_def Let_def by auto

lemma py_round_le_floor_Suc: "py_round x \<le> \<lfloor>x\<rfloor> + 1"
  unfolding py_round_def Let_def by auto

lemma py_round_nonpos: "x \<le> 0 \<Longrightarrow> py_round x \<le> 0"
proof (cases "x = 0")
  case True
  then show ?thesis by (simp add: py_round_def)
next
  case False
  assume "x \<le> 0"
  with False have "x < 0" by simp
  then have "\<lfloor>x\<rfloor> < 0" by (simp add: floor_less_zero)
  with py_round_le_floor_Suc [of x] show ?thesis by linarith
qed

lemma py_round_mono: "x \<le> y \<Longrightarrow> py_round x \<le> py_round y"
proof -
  assume xy: "x \<le> y"
  then have fl: "\<lfloor>x\<rfloor> \<le> \<lfloor>y\<rfloor>" by (rule floor_mono)
  show ?thesis
  proof (cases "\<lfloor>x\<rfloor> = \<lfloor>y\<rfloor>")
    case True
    with xy show ?thesis
      unfolding py_round_def Let_def by (auto; linarith)
  next
    case False
    with fl have "\<lfloor>x\<rfloor> + 1 \<le> \<lfloor>y\<rfloor>" by linarith
    with py_round_le_floor_Suc [of x] py_round_floor_le [of y] show ?thesis by linarith
  qed
qed

lemma py_round_Ints: "b \<in> \<int> \<Longrightarrow> of_int (py_round b) = b"
  by (auto simp: Ints_def py_round_of_int)

lemma py_round_le_doble: "0 \<le> x \<Longrightarrow> of_int (py_round x) \<le> 2 * x"
proof -
  assume x: "0 \<le> x"
  show ?thesis
  proof (cases "x \<le> 1 / 2")
    case True
    with x have "\<lfloor>x\<rfloor> = 0" by (simp add: floor_eq_iff) 
    with True have "py_round x = 0" by (auto simp: py_round_def Let_def)
    with x show ?thesis by simp
  next
    case False
    with py_round_upper [of x] show ?thesis by linarith
  qed
qed

lemma py_round_ge_doble: "x \<le> 0 \<Longrightarrow> 2 * x \<le> of_int (py_round x)"
proof -
  assume x: "x \<le> 0"
  show ?thesis
  proof (cases "- (1 / 2) \<le> x")
    case True
    show ?thesis
    proof (cases "x = 0")
      case True
      then show ?thesis by (simp add: py_round_def)
    next
      case False
      with x True have "\<lfloor>x\<rfloor> = - 1" by (simp add: floor_eq_iff)
      with True have "py_round x = 0" by (auto simp: py_round_def Let_def)
      with x show ?thesis by simp
    qed
  next
    case False
    with py_round_lower [of x] show ?thesis by linarith
  qed
qed

lemma suma_round_cerca:
  "\<bar>of_int (\<Sum>x\<leftarrow>xs. py_round x) - (\<Sum>x\<leftarrow>xs. x)\<bar> \<le> of_nat (length xs) / 2"
proof (induction xs)
  case Nil
  then show ?case by simp
next
  case (Cons x xs)
  from py_round_lower [of x] py_round_upper [of x]
  have a: "\<bar>of_int (py_round x) - x\<bar> \<le> 1 / 2" by linarith
  have "\<bar>of_int (\<Sum>y\<leftarrow>x # xs. py_round y) - (\<Sum>y\<leftarrow>x # xs. y)\<bar>
          \<le> \<bar>of_int (py_round x) - x\<bar> + \<bar>of_int (\<Sum>y\<leftarrow>xs. py_round y) - (\<Sum>y\<leftarrow>xs. y)\<bar>"
    by simp
  also have "\<dots> \<le> 1 / 2 + of_nat (length xs) / 2"
    using a Cons by (rule add_mono)
  also have "\<dots> = of_nat (length (x # xs)) / 2" by simp
  finally show ?case .
qed

lemma suma_round_nonneg:
  assumes "\<forall>x \<in> set xs. 0 \<le> x"
  shows "0 \<le> (\<Sum>x\<leftarrow>xs. py_round x) \<and> of_int (\<Sum>x\<leftarrow>xs. py_round x) \<le> 2 * (\<Sum>x\<leftarrow>xs. x)"
  using assms
proof (induction xs)
  case Nil
  then show ?case by simp
next
  case (Cons x xs)
  then have "0 \<le> x" by simp
  from py_round_nonneg [OF this] py_round_le_doble [OF this] Cons show ?case by simp
qed

lemma suma_round_nonpos:
  assumes "\<forall>x \<in> set xs. x \<le> 0"
  shows "(\<Sum>x\<leftarrow>xs. py_round x) \<le> 0 \<and> 2 * (\<Sum>x\<leftarrow>xs. x) \<le> of_int (\<Sum>x\<leftarrow>xs. py_round x)"
  using assms
proof (induction xs)
  case Nil
  then show ?case by simp
next
  case (Cons x xs)
  then have "x \<le> 0" by simp
  from py_round_nonpos [OF this] py_round_ge_doble [OF this] Cons show ?case by simp
qed

section \<open>The loops as maps\<close>

lemma set_unique [simp]: "set (unique xs) = set xs"
  by (induction xs rule: unique.induct) auto

lemma distinct_unique [simp]: "distinct (unique xs)"
  by (induction xs rule: unique.induct) auto

lemma set_claves_groupby [simp]: "set (claves_groupby ks) = set ks"
  by (simp add: claves_groupby_def)

lemma vars_de_semana_sel [simp]:
  "v_sku (vars_de_semana cfg sa k grupo cupo st w pf ds) = k"
  "v_semana_num (vars_de_semana cfg sa k grupo cupo st w pf ds) = w"
  "v_semana_actual (vars_de_semana cfg sa k grupo cupo st w pf ds) = sa"
  "v_datos_semana (vars_de_semana cfg sa k grupo cupo st w pf ds) = ds"
  "v_inventario_fisico (vars_de_semana cfg sa k grupo cupo st w pf ds) = fisico_semana st pf"
  "v_inventario_semanal_total (vars_de_semana cfg sa k grupo cupo st w pf ds) =
     total_a_distribuir cfg sa grupo cupo st w pf"
  "v_suma_bolsas (vars_de_semana cfg sa k grupo cupo st w pf ds) = suma_bolsas (canales_data st)"
  by (simp_all add: vars_de_semana_def)

lemma fst_procesar_canales:
  "fst (procesar_canales v cd) = map (\<lambda>(c, info). (c, canal_tras_semana v c info)) cd"
  by (induction cd) (auto simp: canal_tras_semana_def Let_def split: prod.splits list.splits)

lemma snd_procesar_canales:
  "snd (procesar_canales v cd) = concat (map (\<lambda>(c, info). filas_canal v c info) cd)"
  by (induction cd) (auto simp: filas_canal_def Let_def split: prod.splits list.splits)

lemma fila_resultado_restante_nonneg: "0 \<le> cupo_canal_restante (fila_resultado v c info row)"
  by (simp add: fila_resultado_def actualizar_bolsa_def Let_def)

lemma filas_canal_restante_nonneg: "r \<in> set (filas_canal v c info) \<Longrightarrow> 0 \<le> cupo_canal_restante r"
  by (auto simp: filas_canal_def fila_resultado_restante_nonneg split: list.splits)

lemma filas_canal_campos:
  assumes "r0 \<in> set (filas_canal v c info)"
  shows "canal r0 = c"
    and "asignacion_canal r0 =
           asignar_canal (v_inventario_semanal_total v) (v_suma_bolsas v) (bolsa_disponible info)"
  using assms
  by (auto simp: filas_canal_def fila_resultado_def Let_def split: list.splits)

text \<open>Every row of a week is a row of one channel entry, with the week totals filled in.\<close>

lemma filas_procesar_semana:
  assumes "r \<in> set (snd (procesar_semana cfg sa k grupo cupo st w))"
  shows "\<exists>pf otras c info r0 a b d.
           filter (\<lambda>r. semana_num r = w) grupo = pf # otras \<and>
           (c, info) \<in> set (canales_data st) \<and>
           r0 \<in> set (filas_canal (vars_de_semana cfg sa k grupo cupo st w pf (pf # otras)) c info) \<and>
           r = r0 \<lparr> asignacion_semana := a, ventas_totales_semana := b,
                     ventas_totales_informativas := d \<rparr>"
proof (cases "filter (\<lambda>r. semana_num r = w) grupo")
  case Nil
  with assms show ?thesis by (simp add: procesar_semana_def)
next
  case (Cons pf otras)
  let ?v = "vars_de_semana cfg sa k grupo cupo st w pf (pf # otras)"
  obtain cd' filas where pc: "procesar_canales ?v (canales_data st) = (cd', filas)"
    by (cases "procesar_canales ?v (canales_data st)")
  have filas: "filas = concat (map (\<lambda>(c, info). filas_canal ?v c info) (canales_data st))"
    using snd_procesar_canales [of ?v "canales_data st"] pc by simp
  from assms Cons pc obtain r0 where r0: "r0 \<in> set filas"
    and r: "r = r0 \<lparr> asignacion_semana := sum_list (map asignacion_canal filas),
                     ventas_totales_semana := sum_list (map ventas_reales_res filas),
                     ventas_totales_informativas := sum_list (map ventas_reales_informativas filas) \<rparr>"
    by (auto simp: procesar_semana_def Let_def)
  from r0 filas obtain c info where "(c, info) \<in> set (canales_data st)"
    and "r0 \<in> set (filas_canal ?v c info)"
    by auto
  with Cons r show ?thesis by blast
qed

lemma filas_procesar_semanas:
  assumes "(st', filas) \<in> set (procesar_semanas cfg sa k grupo cupo st ws)" and "r \<in> set filas"
  shows "\<exists>st0 w. r \<in> set (snd (procesar_semana cfg sa k grupo cupo st0 w))"
  using assms
proof (induction ws arbitrary: st)
  case Nil
  then show ?case by simp
next
  case (Cons w ws)
  then show ?case
    by (auto split: prod.splits) (metis snd_conv)
qed

lemma filas_calcular:
  assumes "r \<in> set (fst (calcular_asignacion_semanal_secuencial df cfg sa))"
  shows "\<exists>k grupo cupo st0 w. r \<in> set (snd (procesar_semana cfg sa k grupo cupo st0 w))"
proof -
  from assms obtain k where "r \<in> set (procesar_sku cfg sa k (filter (\<lambda>r. sku r = k) df))"
    by (auto simp: calcular_asignacion_semanal_secuencial_def Let_def)
  then obtain st' filas where "(st', filas) \<in> set (traza_sku cfg sa k (filter (\<lambda>r. sku r = k) df))"
    and "r \<in> set filas"
    by (auto simp: procesar_sku_def)
  then show ?thesis
    unfolding traza_sku_def using filas_procesar_semanas by blast
qed

lemma restante_nonneg_semana:
  assumes "r \<in> set (snd (procesar_semana cfg sa k grupo cupo st w))"
  shows "0 \<le> cupo_canal_restante r"
proof -
  from filas_procesar_semana [OF assms] obtain v c info r0 a b d
    where "r0 \<in> set (filas_canal v c info)"
      and "r = r0 \<lparr> asignacion_semana := a, ventas_totales_semana := b,
                     ventas_totales_informativas := d \<rparr>"
    by blast
  then show ?thesis using filas_canal_restante_nonneg by simp
qed

lemma bolsa_nunca_negativa_filas:
  "r \<in> set (fst (calcular_asignacion_semanal_secuencial df cfg sa)) \<Longrightarrow> 0 \<le> cupo_canal_restante r"
  using filas_calcular restante_nonneg_semana by blast

lemma canales_tras_semana:
  "canales_data (fst (procesar_semana cfg sa k grupo cupo st w)) =
     (case filter (\<lambda>r. semana_num r = w) grupo of
        [] \<Rightarrow> canales_data st
      | pf # otras \<Rightarrow>
          map (\<lambda>(c, info). (c, canal_tras_semana (vars_de_semana cfg sa k grupo cupo st w pf (pf # otras)) c info))
            (canales_data st))"
proof (cases "filter (\<lambda>r. semana_num r = w) grupo")
  case Nil
  then show ?thesis by (simp add: procesar_semana_def)
next
  case (Cons pf otras)
  let ?v = "vars_de_semana cfg sa k grupo cupo st w pf (pf # otras)"
  obtain cd' filas where pc: "procesar_canales ?v (canales_data st) = (cd', filas)"
    by (cases "procesar_canales ?v (canales_data st)")
  with fst_procesar_canales [of ?v "canales_data st"]
  have "cd' = map (\<lambda>(c, info). (c, canal_tras_semana ?v c info)) (canales_data st)" by simp
  with Cons pc show ?thesis by (simp add: procesar_semana_def Let_def)
qed

lemma claves_tras_semana:
  "map fst (canales_data (fst (procesar_semana cfg sa k grupo cupo st w))) = map fst (canales_data st)"
  by (simp add: canales_tras_semana split: list.splits) (simp add: case_prod_unfold comp_def)

lemma distinct_tras_semana:
  "distinct (map fst (canales_data st)) \<Longrightarrow>
   distinct (map fst (canales_data (fst (procesar_semana cfg sa k grupo cupo st w))))"
  by (simp add: claves_tras_semana)

lemma map_of_map_clave:
  "map_of (map (\<lambda>(c, info). (c, f c info)) cd) c = map_option (f c) (map_of cd c)"
  by (induction cd) auto

lemma bolsa_canal_tras_semana:
  "bolsa_disponible (canal_tras_semana v c info) =
     (case filter (\<lambda>r. Channel r = c) (v_datos_semana v) of
        [] \<Rightarrow> bolsa_disponible info
      | row # _ \<Rightarrow>
          actualizar_bolsa (bolsa_disponible info)
            (ventas_para_calculo (v_semana_actual v) (v_semana_num v) (ventas_reales row)))"
  by (simp add: canal_tras_semana_def fila_resultado_def Let_def split: list.splits)

lemma bolsa_de_tras_semana:
  assumes "c \<in> fst ` set (canales_data st)"
  shows "bolsa_de (fst (procesar_semana cfg sa k grupo cupo st w)) c =
     (case filter (\<lambda>r. Channel r = c) (filter (\<lambda>r. semana_num r = w) grupo) of
        [] \<Rightarrow> bolsa_de st c
      | row # _ \<Rightarrow> actualizar_bolsa (bolsa_de st c) (ventas_para_calculo sa w (ventas_reales row)))"
proof -
  from assms obtain info where info: "map_of (canales_data st) c = Some info"
    by (metis domD dom_map_of_conv_image_fst)
  then have b: "bolsa_de st c = bolsa_disponible info" by (simp add: bolsa_de_def)
  show ?thesis
  proof (cases "filter (\<lambda>r. semana_num r = w) grupo")
    case Nil
    then show ?thesis by (simp add: bolsa_de_def canales_tras_semana)
  next
    case (Cons pf otras)
    let ?v = "vars_de_semana cfg sa k grupo cupo st w pf (pf # otras)"
    have "bolsa_de (fst (procesar_semana cfg sa k grupo cupo st w)) c =
            bolsa_disponible (canal_tras_semana ?v c info)"
      using Cons info by (simp add: bolsa_de_def canales_tras_semana map_of_map_clave)
    also have "\<dots> = (case filter (\<lambda>r. Channel r = c) (v_datos_semana ?v) of
        [] \<Rightarrow> bolsa_disponible info
      | row # _ \<Rightarrow>
          actualizar_bolsa (bolsa_disponible info)
            (ventas_para_calculo (v_semana_actual ?v) (v_semana_num ?v) (ventas_reales row)))"
      by (rule bolsa_canal_tras_semana)
    finally show ?thesis
      unfolding vars_de_semana_sel b Cons .
  qed
qed

lemma bolsa_de_no_clave:
  assumes "c \<notin> fst ` set (canales_data st)"
  shows "bolsa_de st c = 0"
proof -
  from assms have "map_of (canales_data st) c = None" by (simp add: map_of_eq_None_iff)
  then show ?thesis by (simp add: bolsa_de_def)
qed

lemma bolsa_de_entrada:
  assumes "distinct (map fst (canales_data st))" and "(c, info) \<in> set (canales_data st)"
  shows "bolsa_de st c = bolsa_disponible info"
  using assms by (simp add: bolsa_de_def)

lemma bolsa_tras_paso_nonneg:
  assumes "c \<in> fst ` set (canales_data st)"
    and "filter (\<lambda>r. Channel r = c) (filter (\<lambda>r. semana_num r = w) grupo) \<noteq> []"
  shows "0 \<le> bolsa_de (fst (procesar_semana cfg sa k grupo cupo st w)) c"
  using assms by (simp add: bolsa_de_tras_semana actualizar_bolsa_def split: list.splits)

lemma ventas_para_calculo_nonneg: "0 \<le> x \<Longrightarrow> 0 \<le> ventas_para_calculo sa w x"
  by (simp add: ventas_para_calculo_def)

section \<open>Balances along the weeks\<close>

text \<open>One week never raises a balance, and keeps it non-negative.\<close>

lemma bolsa_de_semana_le:
  assumes ventas: "\<forall>r \<in> set grupo. Channel r = c \<longrightarrow> 0 \<le> ventas_reales r"
    and inv: "0 \<le> bolsa_de st c"
  shows "bolsa_de (fst (procesar_semana cfg sa k grupo cupo st w)) c \<le> bolsa_de st c
       \<and> 0 \<le> bolsa_de (fst (procesar_semana cfg sa k grupo cupo st w)) c"
proof (cases "c \<in> fst ` set (canales_data st)")
  case False
  then have "c \<notin> fst ` set (canales_data (fst (procesar_semana cfg sa k grupo cupo st w)))"
    using claves_tras_semana [of cfg sa k grupo cupo st w] by (metis set_map)
  with False show ?thesis by (simp add: bolsa_de_no_clave)
next
  case True
  show ?thesis
  proof (cases "filter (\<lambda>r. Channel r = c) (filter (\<lambda>r. semana_num r = w) grupo)")
    case Nil
    with True inv show ?thesis by (simp add: bolsa_de_tras_semana)
  next
    case (Cons row otras)
    then have "row \<in> set (filter (\<lambda>r. Channel r = c) (filter (\<lambda>r. semana_num r = w) grupo))"
      by simp
    then have "row \<in> set grupo" "Channel row = c" by auto
    with ventas have "0 \<le> ventas_para_calculo sa w (ventas_reales row)"
      by (simp add: ventas_para_calculo_nonneg)
    with True Cons inv show ?thesis
      by (simp add: bolsa_de_tras_semana actualizar_bolsa_def)
  qed
qed

lemma bolsa_de_traza_le:
  assumes ventas: "\<forall>r \<in> set grupo. Channel r = c \<longrightarrow> 0 \<le> ventas_reales r"
    and inv: "0 \<le> bolsa_de st c"
  shows "\<forall>s \<in> set (map fst (procesar_semanas cfg sa k grupo cupo st ws)).
           bolsa_de s c \<le> bolsa_de st c \<and> 0 \<le> bolsa_de s c"
  using inv
proof (induction ws arbitrary: st)
  case Nil
  then show ?case by simp
next
  case (Cons w ws)
  let ?st' = "fst (procesar_semana cfg sa k grupo cupo st w)"
  from bolsa_de_semana_le [OF ventas Cons.prems, of cfg sa k cupo w]
  have le: "bolsa_de ?st' c \<le> bolsa_de st c" and nn: "0 \<le> bolsa_de ?st' c" by simp_all
  from Cons.IH [OF nn] le nn show ?case
    by (auto simp: case_prod_unfold Let_def)
qed

lemma bolsa_de_traza_sorted:
  assumes ventas: "\<forall>r \<in> set grupo. Channel r = c \<longrightarrow> 0 \<le> ventas_reales r"
    and inv: "0 \<le> bolsa_de st c"
  shows "sorted_wrt (\<lambda>a b. b \<le> a)
           (map (\<lambda>s. bolsa_de s c) (st # map fst (procesar_semanas cfg sa k grupo cupo st ws)))"
  using inv
proof (induction ws arbitrary: st)
  case Nil
  then show ?case by simp
next
  case (Cons w ws)
  let ?st' = "fst (procesar_semana cfg sa k grupo cupo st w)"
  from bolsa_de_semana_le [OF ventas Cons.prems, of cfg sa k cupo w]
  have nn: "0 \<le> bolsa_de ?st' c" by simp
  have all: "\<forall>s \<in> set (map fst (procesar_semanas cfg sa k grupo cupo st (w # ws))).
           bolsa_de s c \<le> bolsa_de st c"
    using bolsa_de_traza_le [OF ventas Cons.prems] by blast
  from Cons.IH [OF nn] all show ?case
    by (auto simp: case_prod_unfold Let_def)
qed

lemma canales_iniciales_entrada:
  assumes "(c, info) \<in> set (canales_iniciales grupo)"
  shows "\<exists>r \<in> set grupo. Channel r = c \<and> cupo_mensual info = cupo_mensual_canal r
           \<and> bolsa_disponible info = cupo_mensual_canal r"
proof -
  from assms have "\<exists>r rs. filter (\<lambda>r. Channel r = c) grupo = r # rs \<and>
      info = \<lparr> cupo_mensual = cupo_mensual_canal r, peso_canal_info = peso_canal r,
                     bolsa_disponible = cupo_mensual_canal r \<rparr>"
    by (auto simp: canales_iniciales_def split: list.splits) metis
  then obtain r rs where f: "filter (\<lambda>r. Channel r = c) grupo = r # rs"
    and i: "info = \<lparr> cupo_mensual = cupo_mensual_canal r, peso_canal_info = peso_canal r,
                     bolsa_disponible = cupo_mensual_canal r \<rparr>"
    by blast
  from f have "r \<in> set (filter (\<lambda>r. Channel r = c) grupo)" by simp
  with i show ?thesis by auto
qed

lemma claves_canales_iniciales:
  "map fst (canales_iniciales grupo) = unique (map Channel grupo)"
proof -
  have "\<And>cs. set cs \<subseteq> Channel ` set grupo \<Longrightarrow>
      map fst (concat (map (\<lambda>c. case filter (\<lambda>r. Channel r = c) grupo of
                         [] \<Rightarrow> []
                       | r # _ \<Rightarrow> [(c, \<lparr> cupo_mensual = cupo_mensual_canal r,
                                        peso_canal_info = peso_canal r,
                                        bolsa_disponible = cupo_mensual_canal r \<rparr>)]) cs)) = cs"
  proof -
    fix cs show "set cs \<subseteq> Channel ` set grupo \<Longrightarrow> ?thesis cs"
    proof (induction cs)
      case Nil
      then show ?case by simp
    next
      case (Cons c cs)
      then obtain r where "r \<in> set grupo" "Channel r = c" by auto
      then have "filter (\<lambda>r. Channel r = c) grupo \<noteq> []"
        by (auto simp: filter_empty_conv)
      with Cons show ?case by (auto split: list.splits)
    qed
  qed
  then show ?thesis by (simp add: canales_iniciales_def)
qed

lemma distinct_canales_iniciales: "distinct (map fst (canales_iniciales grupo))"
  by (simp add: claves_canales_iniciales)

lemma bolsa_de_inicial_nonneg:
  assumes "\<forall>r \<in> set grupo. Channel r = c \<longrightarrow> 0 \<le> cupo_mensual_canal r"
  shows "0 \<le> bolsa_de (estado_inicial grupo) c"
proof (cases "map_of (canales_iniciales grupo) c")
  case None
  then show ?thesis by (simp add: bolsa_de_def estado_inicial_def)
next
  case (Some info)
  then have "(c, info) \<in> set (canales_iniciales grupo)" by (rule map_of_SomeD)
  from canales_iniciales_entrada [OF this] assms Some show ?thesis
    by (auto simp: bolsa_de_def estado_inicial_def)
qed

section \<open>The assignment of a row\<close>

text \<open>The assignment of a row, in terms of the state before its week.\<close>

lemma asignacion_fila_semana:
  assumes dist: "distinct (map fst (canales_data st))"
    and r: "r \<in> set (snd (procesar_semana cfg sa k grupo cupo st w))"
  shows "\<exists>pf otras. filter (\<lambda>r. semana_num r = w) grupo = pf # otras \<and>
           canal r \<in> fst ` set (canales_data st) \<and>
           asignacion_canal r =
             asignar_canal (total_a_distribuir cfg sa grupo cupo st w pf)
               (suma_bolsas (canales_data st)) (bolsa_de st (canal r))"
proof -
  from filas_procesar_semana [OF r] obtain pf otras c info r0 a b d
    where f: "filter (\<lambda>r. semana_num r = w) grupo = pf # otras"
      and e: "(c, info) \<in> set (canales_data st)"
      and r0: "r0 \<in> set (filas_canal (vars_de_semana cfg sa k grupo cupo st w pf (pf # otras)) c info)"
      and req: "r = r0 \<lparr> asignacion_semana := a, ventas_totales_semana := b,
                     ventas_totales_informativas := d \<rparr>"
    by blast
  from filas_canal_campos(1,2) [OF r0] req
  have "canal r = c"
    and "asignacion_canal r =
           asignar_canal (total_a_distribuir cfg sa grupo cupo st w pf)
             (suma_bolsas (canales_data st)) (bolsa_disponible info)"
    by simp_all
  with f e bolsa_de_entrada [OF dist e] show ?thesis
    by (metis fst_conv image_eqI)
qed

lemma asignar_canal_cero: "asignar_canal t s 0 = 0"
  by (simp add: asignar_canal_def py_round_def)

lemma asignar_canal_nonneg:
  assumes "0 \<le> t" and "0 \<le> b"
  shows "0 \<le> asignar_canal t s b"
proof -
  have "0 \<le> t * (if 0 < s then b / s else 0)"
    using assms by (auto intro!: mult_nonneg_nonneg divide_nonneg_pos)
  with assms(2) show ?thesis
    by (simp add: asignar_canal_def Let_def py_round_nonneg)
qed

lemma asignar_canal_le: "asignar_canal t s b \<le> py_round b"
  by (simp add: asignar_canal_def Let_def py_round_mono)

lemma asignar_canal_sin_tope:
  assumes "0 < s" and "0 < b" and "t \<le> s"
  shows "asignar_canal t s b = py_round (t / s * b)"
proof -
  from assms have "t / s \<le> 1" by (simp add: divide_le_eq)
  with assms(2) have "t / s * b \<le> b"
    using mult_right_mono [of "t / s" 1 b] by simp
  moreover have "t * (b / s) = t / s * b" by simp
  ultimately show ?thesis using assms(1) by (simp add: asignar_canal_def Let_def min_def)
qed

section \<open>The weekly total\<close>

lemma suma_bolsas_todas:
  assumes "\<forall>(c, i) \<in> set cd. 0 \<le> bolsa_disponible i"
  shows "suma_bolsas cd = (\<Sum>(c, i)\<leftarrow>cd. bolsa_disponible i)"
  using assms unfolding suma_bolsas_def
proof (induction cd)
  case Nil
  then show ?case by simp
next
  case (Cons e cd)
  obtain c i where e: "e = (c, i)" by (cases e)
  from Cons.prems e have "0 \<le> bolsa_disponible i" by simp
  moreover from Cons have "sum_list (map (\<lambda>(c, i). bolsa_disponible i)
                 (filter (\<lambda>(c, i). 0 < bolsa_disponible i) cd)) = (\<Sum>(c, i)\<leftarrow>cd. bolsa_disponible i)"
    by simp
  ultimately show ?case using e by (cases "bolsa_disponible i = 0") auto
qed

lemma suma_bolsas_nonneg: "0 \<le> suma_bolsas cd"
  unfolding suma_bolsas_def by (rule sum_list_nonneg) auto

lemma suma_factores_restantes_pos:
  assumes "\<forall>s \<in> set (semanas cfg). 0 < factor_de (factores_estacionalidad cfg) s"
    and "w \<in> set (semanas cfg)"
  shows "0 < suma_factores_restantes cfg w"
proof -
  have "\<And>ws. \<forall>s \<in> set ws. 0 < factor_de (factores_estacionalidad cfg) s \<Longrightarrow> w \<in> set ws \<Longrightarrow>
     0 < sum_list (map (factor_de (factores_estacionalidad cfg)) (filter (\<lambda>s. w \<le> s) ws))"
  proof -
    fix ws show "\<forall>s \<in> set ws. 0 < factor_de (factores_estacionalidad cfg) s \<Longrightarrow> w \<in> set ws \<Longrightarrow>
     0 < sum_list (map (factor_de (factores_estacionalidad cfg)) (filter (\<lambda>s. w \<le> s) ws))"
    proof (induction ws)
      case Nil
      then show ?case by simp
    next
      case (Cons a ws)
      have nn: "0 \<le> sum_list (map (factor_de (factores_estacionalidad cfg)) (filter (\<lambda>s. w \<le> s) ws))"
        using Cons.prems(1) by (intro sum_list_nonneg) (auto intro: less_imp_le)
      show ?case
      proof (cases "a = w")
        case True
        with Cons.prems(1) nn show ?thesis by (simp add: add_pos_nonneg)
      next
        case False
        with Cons have "0 < sum_list (map (factor_de (factores_estacionalidad cfg)) (filter (\<lambda>s. w \<le> s) ws))"
          by simp
        with Cons.prems(1) show ?thesis by (simp add: add_pos_pos)
      qed
    qed
  qed
  with assms show ?thesis by (simp add: suma_factores_restantes_def)
qed

lemma proporcion_semana_cotas:
  assumes factores: "\<forall>s \<in> set (semanas cfg). 0 < factor_de (factores_estacionalidad cfg) s"
    and w: "w \<in> set (semanas cfg)"
  shows "0 < proporcion_semana cfg w" and "proporcion_semana cfg w \<le> 1"
proof -
  let ?f = "factor_de (factores_estacionalidad cfg)"
  let ?fs = "map ?f (filter (\<lambda>s. w \<le> s) (semanas cfg))"
  have s: "0 < suma_factores_restantes cfg w"
    by (rule suma_factores_restantes_pos [OF factores w])
  from w have "?f w \<in> set ?fs" by simp
  moreover have "0 \<le> x" if "x \<in> set ?fs" for x
    using that factores by (auto intro: less_imp_le)
  ultimately have "?f w \<le> sum_list ?fs" by (rule member_le_sum_list)
  then have le: "?f w \<le> suma_factores_restantes cfg w"
    by (simp add: suma_factores_restantes_def)
  from factores w have "0 < ?f w" by simp
  with s show "0 < proporcion_semana cfg w" by (simp add: proporcion_semana_def)
  from s le show "proporcion_semana cfg w \<le> 1" by (simp add: proporcion_semana_def)
qed

lemma filter_maximo:
  assumes "distinct ws" and "w \<in> set ws" and "\<forall>s \<in> set ws. s \<le> (w::int)"
  shows "filter (\<lambda>s. w \<le> s) ws = [w]"
  using assms
proof (induction ws)
  case Nil
  then show ?case by simp
next
  case (Cons a ws)
  show ?case
  proof (cases "a = w")
    case True
    with Cons.prems have "\<forall>s \<in> set ws. \<not> w \<le> s" by auto
    then have "filter (\<lambda>s. w \<le> s) ws = []" by (simp add: filter_empty_conv)
    with True show ?thesis by simp
  next
    case False
    with Cons.prems have "a < w" and "w \<in> set ws" by auto
    with Cons show ?thesis by simp
  qed
qed

lemma proporcion_ultima_semana:
  assumes "distinct (semanas cfg)" and "w \<in> set (semanas cfg)"
    and "\<forall>s \<in> set (semanas cfg). s \<le> w"
    and "0 < factor_de (factores_estacionalidad cfg) w"
  shows "proporcion_semana cfg w = 1"
  using assms
  by (simp add: proporcion_semana_def suma_factores_restantes_def filter_maximo)

lemma escala_proporcion:
  fixes r p :: rat
  assumes "0 < p" and "p \<le> 1"
  shows "0 \<le> r \<Longrightarrow> 0 \<le> r * p \<and> r * p \<le> r"
    and "r \<le> 0 \<Longrightarrow> r \<le> r * p \<and> r * p \<le> 0"
proof -
  show "0 \<le> r \<Longrightarrow> 0 \<le> r * p \<and> r * p \<le> r"
    using assms mult_left_mono [of p 1 r] by (simp add: mult_nonneg_nonneg less_imp_le)
  show "r \<le> 0 \<Longrightarrow> r \<le> r * p \<and> r * p \<le> 0"
    using assms mult_left_mono_neg [of p 1 r] by (simp add: mult_nonpos_nonneg less_imp_le)
qed

lemma sorted_le_last: "sorted xs \<Longrightarrow> x \<in> set xs \<Longrightarrow> x \<le> last xs"
  by (induction xs) auto

section \<open>Months with open weeks only\<close>

lemma asignado_canales_props:
  assumes pos: "\<forall>(c, i) \<in> set cd. 0 < bolsa_disponible i" and ne: "cd \<noteq> []"
    and t: "t \<le> suma_bolsas cd"
  shows "\<bar>of_int (asignado_canales t cd) - t\<bar> \<le> of_nat (length cd) / 2"
    and "0 \<le> t \<Longrightarrow> 0 \<le> asignado_canales t cd \<and> of_int (asignado_canales t cd) \<le> 2 * t"
    and "t \<le> 0 \<Longrightarrow> asignado_canales t cd \<le> 0 \<and> 2 * t \<le> of_int (asignado_canales t cd)"
proof -
  let ?s = "suma_bolsas cd"
  let ?xs = "map (\<lambda>(c, i). t / ?s * bolsa_disponible i) cd"
  have todas: "?s = (\<Sum>(c, i)\<leftarrow>cd. bolsa_disponible i)"
    using pos by (intro suma_bolsas_todas) (auto intro: less_imp_le)
  obtain c0 i0 rest where cd: "cd = (c0, i0) # rest" using ne by (cases cd) auto
  have "0 \<le> (\<Sum>(c, i)\<leftarrow>rest. bolsa_disponible i)"
    using pos cd by (intro sum_list_nonneg) (auto intro: less_imp_le)
  moreover have "0 < bolsa_disponible i0" using pos cd by simp
  moreover have "?s = bolsa_disponible i0 + (\<Sum>(c, i)\<leftarrow>rest. bolsa_disponible i)"
    using todas cd by simp
  ultimately have spos: "0 < ?s" by simp
  have eq: "asignado_canales t cd = (\<Sum>x\<leftarrow>?xs. py_round x)"
  proof -
    have "map (\<lambda>(c, i). asignar_canal t ?s (bolsa_disponible i)) cd = map py_round ?xs"
      using pos spos t by (auto simp: asignar_canal_sin_tope)
    then show ?thesis by (simp only: asignado_canales_def)
  qed
  have "(\<Sum>x\<leftarrow>?xs. x) = t / ?s * (\<Sum>(c, i)\<leftarrow>cd. bolsa_disponible i)"
    by (simp add: sum_list_const_mult [symmetric] case_prod_unfold comp_def)
  with todas spos have suma: "(\<Sum>x\<leftarrow>?xs. x) = t" by simp
  from suma_round_cerca [of ?xs] suma eq
  show "\<bar>of_int (asignado_canales t cd) - t\<bar> \<le> of_nat (length cd) / 2" by simp
  {
    assume "0 \<le> t"
    with spos have ts: "0 \<le> t / ?s" by simp
    have "0 \<le> t / ?s * bolsa_disponible i" if "(c, i) \<in> set cd" for c i
    proof -
      from that pos have "0 \<le> bolsa_disponible i" by (auto intro: less_imp_le)
      with ts show ?thesis by (rule mult_nonneg_nonneg)
    qed
    then have "\<forall>x \<in> set ?xs. 0 \<le> x" by auto
    from suma_round_nonneg [OF this] suma eq
    show "0 \<le> asignado_canales t cd \<and> of_int (asignado_canales t cd) \<le> 2 * t" by simp
  }
  {
    assume "t \<le> 0"
    with spos have ts: "t / ?s \<le> 0" by (simp add: divide_le_0_iff)
    have "t / ?s * bolsa_disponible i \<le> 0" if "(c, i) \<in> set cd" for c i
    proof -
      from that pos have "0 \<le> bolsa_disponible i" by (auto intro: less_imp_le)
      with ts show ?thesis by (rule mult_nonpos_nonneg)
    qed
    then have "\<forall>x \<in> set ?xs. x \<le> 0" by auto
    from suma_round_nonpos [OF this] suma eq
    show "asignado_canales t cd \<le> 0 \<and> 2 * t \<le> of_int (asignado_canales t cd)" by simp
  }
qed

lemma estado_tras_snoc:
  "estado_tras cfg sa k grupo cupo st (ws @ [w]) =
     fst (procesar_semana cfg sa k grupo cupo (estado_tras cfg sa k grupo cupo st ws) w)"
  by (induction ws arbitrary: st) simp_all

lemma asignaciones_semana:
  assumes "filter (\<lambda>r. semana_num r = w) grupo = pf # otras"
  shows "map asignacion_canal (snd (procesar_semana cfg sa k grupo cupo st w)) =
           map asignacion_canal
             (concat (map (\<lambda>(c, info). filas_canal (vars_de_semana cfg sa k grupo cupo st w pf (pf # otras)) c info)
                        (canales_data st)))"
proof -
  let ?v = "vars_de_semana cfg sa k grupo cupo st w pf (pf # otras)"
  obtain cd' filas where pc: "procesar_canales ?v (canales_data st) = (cd', filas)"
    by (cases "procesar_canales ?v (canales_data st)")
  with snd_procesar_canales [of ?v "canales_data st"]
  have "filas = concat (map (\<lambda>(c, info). filas_canal ?v c info) (canales_data st))" by simp
  with assms pc show ?thesis
    by (simp add: procesar_semana_def Let_def comp_def)
qed

lemma acumuladas_tras_semana:
  "asignaciones_acumuladas (fst (procesar_semana cfg sa k grupo cupo st w)) =
     asignaciones_acumuladas st
       + (if sa \<le> w then sum_list (map asignacion_canal (snd (procesar_semana cfg sa k grupo cupo st w)))
          else 0)"
proof (cases "filter (\<lambda>r. semana_num r = w) grupo")
  case Nil
  then show ?thesis by (simp add: procesar_semana_def)
next
  case (Cons pf otras)
  let ?v = "vars_de_semana cfg sa k grupo cupo st w pf (pf # otras)"
  obtain cd' filas where pc: "procesar_canales ?v (canales_data st) = (cd', filas)"
    by (cases "procesar_canales ?v (canales_data st)")
  with Cons show ?thesis
    by (simp add: procesar_semana_def Let_def comp_def)
qed

lemma suma_traza_abierta:
  assumes "\<forall>w \<in> set ws. sa \<le> w"
  shows "sum_list (map asignacion_canal (concat (map snd (procesar_semanas cfg sa k grupo cupo st ws))))
           = asignaciones_acumuladas (estado_tras cfg sa k grupo cupo st ws)
               - asignaciones_acumuladas st"
  using assms
proof (induction ws arbitrary: st)
  case Nil
  then show ?case by simp
next
  case (Cons w ws)
  then have "sa \<le> w" and "\<forall>w \<in> set ws. sa \<le> w" by simp_all
  with Cons.IH [of "fst (procesar_semana cfg sa k grupo cupo st w)"]
    acumuladas_tras_semana [of cfg sa k grupo cupo st w]
  show ?case by (simp add: case_prod_unfold Let_def)
qed

lemma ventas_reales_pasadas_abiertas:
  assumes "\<forall>s \<in> set (semanas cfg). sa \<le> s"
  shows "ventas_reales_pasadas cfg sa grupo w = 0"
proof -
  from assms have "filter (\<lambda>s. s < w \<and> s < sa) (semanas cfg) = []"
    by (auto simp: filter_empty_conv)
  then show ?thesis by (simp add: ventas_reales_pasadas_def)
qed

text \<open>An open week, when every channel has a positive balance and a row in the week.\<close>

lemma semana_abierta:
  assumes abierta: "sa \<le> w"
    and abiertas: "\<forall>s \<in> set (semanas cfg). sa \<le> s"
    and pos: "\<forall>(c, i) \<in> set (canales_data st). 0 < bolsa_disponible i"
    and filas: "\<forall>(c, i) \<in> set (canales_data st).
                  filter (\<lambda>r. Channel r = c) (filter (\<lambda>r. semana_num r = w) grupo) \<noteq> []"
    and ne: "canales_data st \<noteq> []"
  shows "canales_data (fst (procesar_semana cfg sa k grupo cupo st w)) = canales_data st"
    and "asignaciones_acumuladas (fst (procesar_semana cfg sa k grupo cupo st w)) =
           asignaciones_acumuladas st
             + asignado_canales
                 ((cupo - of_int (asignaciones_acumuladas st)) * proporcion_semana cfg w)
                 (canales_data st)"
proof -
  obtain c0 i0 rest where cd: "canales_data st = (c0, i0) # rest"
    using ne by (cases "canales_data st") auto
  with filas have "filter (\<lambda>r. Channel r = c0) (filter (\<lambda>r. semana_num r = w) grupo) \<noteq> []"
    by simp
  then have "filter (\<lambda>r. semana_num r = w) grupo \<noteq> []"
    by (metis filter.simps(1))
  then obtain pf otras where f: "filter (\<lambda>r. semana_num r = w) grupo = pf # otras"
    by (cases "filter (\<lambda>r. semana_num r = w) grupo") auto
  let ?v = "vars_de_semana cfg sa k grupo cupo st w pf (pf # otras)"
  let ?t = "(cupo - of_int (asignaciones_acumuladas st)) * proporcion_semana cfg w"
  have total: "total_a_distribuir cfg sa grupo cupo st w pf = ?t"
    using abierta ventas_reales_pasadas_abiertas [OF abiertas]
    by (simp add: total_a_distribuir_def inventario_semanal_total_def inventario_teorico_semana_def
        inventario_disponible_mes_def)
  have igual: "canal_tras_semana ?v c i = i" if "(c, i) \<in> set (canales_data st)" for c i
  proof -
    from that pos have "0 < bolsa_disponible i" by auto
    then have "actualizar_bolsa (bolsa_disponible i) (ventas_para_calculo sa w x) = bolsa_disponible i"
      for x using abierta by (simp add: actualizar_bolsa_def ventas_para_calculo_def)
    then have "bolsa_disponible (canal_tras_semana ?v c i) = bolsa_disponible i"
      by (simp add: bolsa_canal_tras_semana split: list.splits)
    then show ?thesis
      by (simp add: canal_tras_semana_def split: list.splits)
  qed
  then have "map (\<lambda>(c, info). (c, canal_tras_semana ?v c info)) (canales_data st) = canales_data st"
    by (simp add: map_idI case_prod_unfold)
  with f show "canales_data (fst (procesar_semana cfg sa k grupo cupo st w)) = canales_data st"
    by (simp add: canales_tras_semana)
  have una: "map asignacion_canal (filas_canal ?v c i) =
               [asignar_canal ?t (suma_bolsas (canales_data st)) (bolsa_disponible i)]"
    if "(c, i) \<in> set (canales_data st)" for c i
  proof -
    from that filas f have "filter (\<lambda>r. Channel r = c) (pf # otras) \<noteq> []" by auto
    then obtain row rs where "filter (\<lambda>r. Channel r = c) (pf # otras) = row # rs"
      by (cases "filter (\<lambda>r. Channel r = c) (pf # otras)") auto
    then have "filas_canal ?v c i = [fila_resultado ?v c i row]"
      by (simp add: filas_canal_def)
    then show ?thesis by (simp add: fila_resultado_def Let_def total)
  qed
  have "map asignacion_canal (concat (map (\<lambda>(c, info). filas_canal ?v c info) cd))
          = map (\<lambda>(c, i). asignar_canal ?t (suma_bolsas (canales_data st)) (bolsa_disponible i)) cd"
    if "set cd \<subseteq> set (canales_data st)" for cd
    using that
  proof (induction cd)
    case Nil
    then show ?case by simp
  next
    case (Cons e cd)
    obtain c i where e: "e = (c, i)" by (cases e)
    with Cons.prems have "(c, i) \<in> set (canales_data st)" by simp
    from una [OF this] Cons e show ?case by simp
  qed
  then have "sum_list (map asignacion_canal (snd (procesar_semana cfg sa k grupo cupo st w)))
               = asignado_canales ?t (canales_data st)"
    by (simp add: asignaciones_semana [OF f] asignado_canales_def)
  with abierta acumuladas_tras_semana [of cfg sa k grupo cupo st w]
  show "asignaciones_acumuladas (fst (procesar_semana cfg sa k grupo cupo st w)) =
           asignaciones_acumuladas st + asignado_canales ?t (canales_data st)"
    by simp
qed

text \<open>
  With only open weeks the accumulated assignment stays between 0 and twice the quota.
\<close>

lemma acumuladas_acotadas_paso:
  assumes pos: "\<forall>(c, i) \<in> set cd. 0 < bolsa_disponible i" and ne: "cd \<noteq> []"
    and p: "0 < p" "p \<le> 1"
    and a0: "0 \<le> a" and a2: "of_int a \<le> 2 * suma_bolsas cd"
  shows "0 \<le> a + asignado_canales ((suma_bolsas cd - of_int a) * p) cd"
    and "of_int (a + asignado_canales ((suma_bolsas cd - of_int a) * p) cd) \<le> 2 * suma_bolsas cd"
proof -
  let ?q = "suma_bolsas cd"
  let ?r = "?q - of_int a"
  let ?t = "?r * p"
  let ?A = "asignado_canales ?t cd"
  have both: "0 \<le> a + ?A \<and> of_int (a + ?A) \<le> 2 * ?q"
  proof (cases "0 \<le> ?r")
    case True
    from escala_proporcion(1) [OF p True] have t: "0 \<le> ?t" "?t \<le> ?r" by simp_all
    with a0 have "?t \<le> ?q" by simp
    from asignado_canales_props(2) [OF pos ne this t(1)]
    have "0 \<le> ?A" and "of_int ?A \<le> 2 * ?t" by simp_all
    with t a0 show ?thesis by simp
  next
    case False
    then have r: "?r \<le> 0" by simp
    from escala_proporcion(2) [OF p r] have t: "?r \<le> ?t" "?t \<le> 0" by simp_all
    from t suma_bolsas_nonneg [of cd] have "?t \<le> ?q" by simp
    from asignado_canales_props(3) [OF pos ne this t(2)]
    have A: "?A \<le> 0" and "2 * ?t \<le> of_int ?A" by simp_all
    with t have "2 * ?r \<le> of_int ?A" by simp
    with a2 have "0 \<le> (of_int a :: rat) + of_int ?A" by simp
    then have "(0::rat) \<le> of_int (a + ?A)" by simp
    then have "0 \<le> a + ?A" by (simp only: of_int_0_le_iff)
    moreover from A a2 have "of_int (a + ?A) \<le> 2 * ?q" by simp
    ultimately show ?thesis by simp
  qed
  from both show "0 \<le> a + ?A" by simp
  from both show "of_int (a + ?A) \<le> 2 * ?q" by simp
qed

lemma invariante_abiertas:
  assumes abiertas: "\<forall>s \<in> set (semanas cfg). sa \<le> s"
    and factores: "\<forall>s \<in> set (semanas cfg). 0 < factor_de (factores_estacionalidad cfg) s"
    and pos: "\<forall>(c, i) \<in> set cd. 0 < bolsa_disponible i" and ne: "cd \<noteq> []"
    and filas: "\<forall>w \<in> set (semanas cfg). \<forall>(c, i) \<in> set cd.
                  filter (\<lambda>r. Channel r = c) (filter (\<lambda>r. semana_num r = w) grupo) \<noteq> []"
    and ws: "set ws \<subseteq> set (semanas cfg)"
    and cd: "canales_data st = cd"
    and a0: "0 \<le> asignaciones_acumuladas st"
    and a2: "of_int (asignaciones_acumuladas st) \<le> 2 * suma_bolsas cd"
  shows "canales_data (estado_tras cfg sa k grupo (suma_bolsas cd) st ws) = cd
       \<and> 0 \<le> asignaciones_acumuladas (estado_tras cfg sa k grupo (suma_bolsas cd) st ws)
       \<and> of_int (asignaciones_acumuladas (estado_tras cfg sa k grupo (suma_bolsas cd) st ws))
            \<le> 2 * suma_bolsas cd"
  using ws cd a0 a2
proof (induction ws arbitrary: st)
  case Nil
  then show ?case by simp
next
  case (Cons w ws)
  let ?st' = "fst (procesar_semana cfg sa k grupo (suma_bolsas cd) st w)"
  from Cons.prems(1) have w: "w \<in> set (semanas cfg)" and ws: "set ws \<subseteq> set (semanas cfg)"
    by simp_all
  from w abiertas have ab: "sa \<le> w" by simp
  have pos': "\<forall>(c, i) \<in> set (canales_data st). 0 < bolsa_disponible i"
    using pos Cons.prems(2) by simp
  have filas': "\<forall>(c, i) \<in> set (canales_data st).
                  filter (\<lambda>r. Channel r = c) (filter (\<lambda>r. semana_num r = w) grupo) \<noteq> []"
    using filas w Cons.prems(2) by blast
  have ne': "canales_data st \<noteq> []" using ne Cons.prems(2) by simp
  from semana_abierta [OF ab abiertas pos' filas' ne', of k "suma_bolsas cd"] Cons.prems(2)
  have cd': "canales_data ?st' = cd"
    and ac: "asignaciones_acumuladas ?st' =
           asignaciones_acumuladas st
             + asignado_canales
                 ((suma_bolsas cd - of_int (asignaciones_acumuladas st)) * proporcion_semana cfg w) cd"
    by simp_all
  from acumuladas_acotadas_paso [OF pos ne proporcion_semana_cotas [OF factores w]
      Cons.prems(3) Cons.prems(4)] ac
  have "0 \<le> asignaciones_acumuladas ?st'"
    and "of_int (asignaciones_acumuladas ?st') \<le> 2 * suma_bolsas cd"
    by simp_all
  from Cons.IH [OF ws cd' this] show ?case by simp
qed

section \<open>The validation\<close>

lemma validacion_sku_warning:
  "WARNING k a q d \<in> set (validacion_sku k' filas) \<longleftrightarrow>
     k = k' \<and> (\<exists>primera otras. filas = primera # otras \<and>
        a = sum_list (map asignacion_canal filas) \<and>
        q = cupo_mensual_total_res primera \<and>
        d = \<bar>of_int a - q\<bar> \<and>
        max (q * (1 / 100)) 10 < d)"
proof (cases filas)
  case Nil
  then show ?thesis by (simp add: validacion_sku_def)
next
  case (Cons primera otras)
  show ?thesis
  proof (cases "max (cupo_mensual_total_res primera * (1 / 100)) 10
                 < \<bar>of_int (sum_list (map asignacion_canal filas)) - cupo_mensual_total_res primera\<bar>")
    case True
    then have "validacion_sku k' filas =
        [WARNING k' (sum_list (map asignacion_canal filas)) (cupo_mensual_total_res primera)
           \<bar>of_int (sum_list (map asignacion_canal filas)) - cupo_mensual_total_res primera\<bar>]"
      unfolding validacion_sku_def Let_def Cons by simp
    with True Cons show ?thesis by auto
  next
    case False
    then have "validacion_sku k' filas =
        [OK k' (sum_list (map asignacion_canal filas)) (sum_list (map ventas_reales_res filas))
           (cupo_mensual_total_res primera)
           (cupo_mensual_total_res primera - sum_list (map ventas_reales_res filas))]"
      unfolding validacion_sku_def Let_def Cons by simp
    with False Cons show ?thesis by auto
  qed
qed

lemma canales_iniciales_primera:
  assumes "(c, info) \<in> set (canales_iniciales grupo)"
  shows "\<exists>r rs. filter (\<lambda>r. Channel r = c) grupo = r # rs \<and>
           bolsa_disponible info = cupo_mensual_canal r"
  using assms by (auto simp: canales_iniciales_def split: list.splits) metis

lemma bolsa_de_inicial:
  assumes f: "filter (\<lambda>r. Channel r = c) grupo = r # rs"
  shows "bolsa_de (estado_inicial grupo) c = cupo_mensual_canal r"
proof -
  from f have "r \<in> set (filter (\<lambda>r. Channel r = c) grupo)" by simp
  then have "c \<in> set (map Channel grupo)" by auto
  then have "c \<in> set (map fst (canales_iniciales grupo))"
    by (simp only: claves_canales_iniciales set_unique)
  then obtain info where e: "(c, info) \<in> set (canales_iniciales grupo)" by auto
  from canales_iniciales_primera [OF e] f
  have b: "bolsa_disponible info = cupo_mensual_canal r" by auto
  from e have "map_of (canales_iniciales grupo) c = Some info"
    using distinct_canales_iniciales [of grupo] by simp
  with b show ?thesis by (simp add: bolsa_de_def estado_inicial_def)
qed

section \<open>One channel along open weeks\<close>

lemma procesar_semanas_append:
  "procesar_semanas cfg sa k grupo cupo st (xs @ ys) =
     procesar_semanas cfg sa k grupo cupo st xs
       @ procesar_semanas cfg sa k grupo cupo (estado_tras cfg sa k grupo cupo st xs) ys"
  by (induction xs arbitrary: st) (simp_all add: case_prod_unfold Let_def)

lemma total_asignado_canal_append:
  "total_asignado_canal c (xs @ ys) = total_asignado_canal c xs + total_asignado_canal c ys"
  by (simp add: total_asignado_canal_def)

lemma total_asignado_canal_Nil: "total_asignado_canal c [] = 0"
  by (simp add: total_asignado_canal_def)

lemma total_asignado_canal_totales:
  "total_asignado_canal c
     (map (\<lambda>r. r \<lparr> asignacion_semana := a, ventas_totales_semana := b,
                   ventas_totales_informativas := d \<rparr>) filas)
   = total_asignado_canal c filas"
  by (induction filas) (simp_all add: total_asignado_canal_def)

lemma filas_semana:
  assumes "filter (\<lambda>r. semana_num r = w) grupo = pf # otras"
    and "filas = concat (map (\<lambda>(c, info). filas_canal (vars_de_semana cfg sa k grupo cupo st w pf (pf # otras)) c info)
                        (canales_data st))"
  shows "snd (procesar_semana cfg sa k grupo cupo st w) =
           map (\<lambda>r. r \<lparr> asignacion_semana := sum_list (map asignacion_canal filas),
                         ventas_totales_semana := sum_list (map ventas_reales_res filas),
                         ventas_totales_informativas :=
                           sum_list (map ventas_reales_informativas filas) \<rparr>)
             filas"
proof -
  let ?v = "vars_de_semana cfg sa k grupo cupo st w pf (pf # otras)"
  obtain cd' filas' where pc: "procesar_canales ?v (canales_data st) = (cd', filas')"
    by (cases "procesar_canales ?v (canales_data st)")
  with snd_procesar_canales [of ?v "canales_data st"] assms(2)
  have "filas' = filas" by simp
  with assms(1) pc show ?thesis
    unfolding procesar_semana_def by (simp add: Let_def)
qed

lemma total_canal_concat:
  assumes "distinct (map fst cd)" and "(c, i) \<in> set cd"
    and "\<forall>(c', i') \<in> set cd. \<exists>r. f c' i' = [r] \<and> canal r = c' \<and> asignacion_canal r = g i'"
  shows "total_asignado_canal c (concat (map (\<lambda>(c', i'). f c' i') cd)) = g i"
  using assms
proof (induction cd)
  case Nil
  then show ?case by simp
next
  case (Cons e cd)
  obtain c' i' where e: "e = (c', i')" by (cases e)
  from Cons.prems(3) e obtain r where r: "f c' i' = [r]" "canal r = c'" "asignacion_canal r = g i'"
    by auto
  have otros: "total_asignado_canal c (concat (map (\<lambda>(c', i'). f c' i') cd)) = 0"
    if "c \<notin> fst ` set cd"
    using that Cons.prems(3)
  proof (induction cd)
    case Nil
    then show ?case by (simp add: total_asignado_canal_Nil)
  next
    case (Cons e2 cd2)
    obtain c2 i2 where e2: "e2 = (c2, i2)" by (cases e2)
    from Cons.prems(2) e2 obtain r2 where "f c2 i2 = [r2]" "canal r2 = c2" by auto
    moreover from Cons.prems(1) e2 have "c2 \<noteq> c" by auto
    moreover have "total_asignado_canal c (concat (map (\<lambda>(c', i'). f c' i') cd2)) = 0"
      using Cons by auto
    ultimately show ?case using e2
      by (simp add: total_asignado_canal_append) (simp add: total_asignado_canal_def)
  qed
  show ?case
  proof (cases "c' = c")
    case True
    with Cons.prems(1,2) e have "i' = i" and "c \<notin> fst ` set cd" by (auto simp: rev_image_eqI)
    with otros r True e show ?thesis
      by (simp add: total_asignado_canal_append) (simp add: total_asignado_canal_def)
  next
    case False
    with Cons.prems e have "(c, i) \<in> set cd" by auto
    with Cons have "total_asignado_canal c (concat (map (\<lambda>(c', i'). f c' i') cd)) = g i" by auto
    with False r e show ?thesis
      by (simp add: total_asignado_canal_append) (simp add: total_asignado_canal_def)
  qed
qed

text \<open>The units of one channel in an open week.\<close>

lemma canal_semana_abierta:
  assumes abierta: "sa \<le> w"
    and abiertas: "\<forall>s \<in> set (semanas cfg). sa \<le> s"
    and filas: "\<forall>(c, i) \<in> set (canales_data st).
                  filter (\<lambda>r. Channel r = c) (filter (\<lambda>r. semana_num r = w) grupo) \<noteq> []"
    and dist: "distinct (map fst (canales_data st))"
    and ci: "(c, i) \<in> set (canales_data st)"
  shows "total_asignado_canal c (snd (procesar_semana cfg sa k grupo cupo st w)) =
           asignar_canal ((cupo - of_int (asignaciones_acumuladas st)) * proporcion_semana cfg w)
             (suma_bolsas (canales_data st)) (bolsa_disponible i)"
proof -
  from filas ci have "filter (\<lambda>r. Channel r = c) (filter (\<lambda>r. semana_num r = w) grupo) \<noteq> []"
    by auto
  then have "filter (\<lambda>r. semana_num r = w) grupo \<noteq> []"
    by (metis filter.simps(1))
  then obtain pf otras where f: "filter (\<lambda>r. semana_num r = w) grupo = pf # otras"
    by (cases "filter (\<lambda>r. semana_num r = w) grupo") auto
  let ?v = "vars_de_semana cfg sa k grupo cupo st w pf (pf # otras)"
  let ?t = "(cupo - of_int (asignaciones_acumuladas st)) * proporcion_semana cfg w"
  have total: "total_a_distribuir cfg sa grupo cupo st w pf = ?t"
    using abierta ventas_reales_pasadas_abiertas [OF abiertas]
    by (simp add: total_a_distribuir_def inventario_semanal_total_def inventario_teorico_semana_def
        inventario_disponible_mes_def)
  have una: "\<exists>r. filas_canal ?v c' i' = [r] \<and> canal r = c' \<and>
               asignacion_canal r = asignar_canal ?t (suma_bolsas (canales_data st)) (bolsa_disponible i')"
    if "(c', i') \<in> set (canales_data st)" for c' i'
  proof -
    from that filas f have "filter (\<lambda>r. Channel r = c') (pf # otras) \<noteq> []" by auto
    then obtain row rs where "filter (\<lambda>r. Channel r = c') (pf # otras) = row # rs"
      by (cases "filter (\<lambda>r. Channel r = c') (pf # otras)") auto
    then have "filas_canal ?v c' i' = [fila_resultado ?v c' i' row]"
      by (simp add: filas_canal_def)
    then show ?thesis by (simp add: fila_resultado_def Let_def total)
  qed
  then have todas: "\<forall>(c', i') \<in> set (canales_data st). \<exists>r. filas_canal ?v c' i' = [r] \<and> canal r = c' \<and>
               asignacion_canal r = asignar_canal ?t (suma_bolsas (canales_data st)) (bolsa_disponible i')"
    by auto
  have "total_asignado_canal c (snd (procesar_semana cfg sa k grupo cupo st w)) =
      total_asignado_canal c (concat (map (\<lambda>(c, info). filas_canal ?v c info) (canales_data st)))"
    by (simp only: filas_semana [OF f refl] total_asignado_canal_totales)
  also have "\<dots> = asignar_canal ?t (suma_bolsas (canales_data st)) (bolsa_disponible i)"
    by (rule total_canal_concat [OF dist ci todas])
  finally show ?thesis .
qed

lemma suma_bolsas_pos:
  assumes pos: "\<forall>(c, i) \<in> set cd. 0 < bolsa_disponible i" and ne: "cd \<noteq> []"
  shows "0 < suma_bolsas cd"
proof -
  obtain c0 i0 rest where cd: "cd = (c0, i0) # rest" using ne by (cases cd) auto
  have "suma_bolsas cd = (\<Sum>(c, i)\<leftarrow>cd. bolsa_disponible i)"
    using pos by (intro suma_bolsas_todas) (auto intro: less_imp_le)
  moreover have "0 \<le> (\<Sum>(c, i)\<leftarrow>rest. bolsa_disponible i)"
    using pos cd by (intro sum_list_nonneg) (auto intro: less_imp_le)
  moreover have "0 < bolsa_disponible i0" using pos cd by simp
  ultimately show ?thesis using cd by simp
qed

lemma bolsa_le_suma_bolsas:
  assumes pos: "\<forall>(c, i) \<in> set cd. 0 < bolsa_disponible i" and ci: "(c, i) \<in> set cd"
  shows "bolsa_disponible i \<le> suma_bolsas cd"
proof -
  let ?bs = "map (\<lambda>(c, i). bolsa_disponible i) cd"
  have s: "suma_bolsas cd = sum_list ?bs"
    using pos by (intro suma_bolsas_todas) (auto intro: less_imp_le)
  from ci have "bolsa_disponible i \<in> set ?bs" by force
  moreover have "0 \<le> x" if "x \<in> set ?bs" for x
    using that pos by (auto intro: less_imp_le)
  ultimately have "bolsa_disponible i \<le> sum_list ?bs" by (rule member_le_sum_list)
  with s show ?thesis by simp
qed

lemma total_abierta_le_cupo:
  fixes q p :: rat and a :: int
  assumes "0 < p" and "p \<le> 1" and "0 \<le> a" and "0 \<le> q"
  shows "(q - of_int a) * p \<le> q"
proof (cases "0 \<le> q - of_int a")
  case True
  from escala_proporcion(1) [OF assms(1,2) True] assms(3) show ?thesis by simp
next
  case False
  then have "q - of_int a \<le> 0" by simp
  from escala_proporcion(2) [OF assms(1,2) this] assms(4) show ?thesis by simp
qed

lemma abs_triangulo:
  fixes x y z a b :: rat
  assumes "\<bar>x - y\<bar> \<le> a" and "\<bar>z - y\<bar> \<le> b"
  shows "\<bar>x - z\<bar> \<le> a + b"
  using assms by linarith

lemma abs_suma:
  fixes x y a b :: rat
  assumes "\<bar>x\<bar> \<le> a" and "\<bar>y\<bar> \<le> b"
  shows "\<bar>x + y\<bar> \<le> a + b"
  using assms by linarith

text \<open>One open week moves a channel's total and its share of the SKU total together.\<close>

lemma paso_canal_cerca:
  assumes pos: "\<forall>(c, i) \<in> set cd. 0 < bolsa_disponible i" and ne: "cd \<noteq> []"
    and ci: "(c, i) \<in> set cd" and t: "t \<le> suma_bolsas cd"
  shows "\<bar>of_int (asignar_canal t (suma_bolsas cd) (bolsa_disponible i))
           - bolsa_disponible i / suma_bolsas cd * of_int (asignado_canales t cd)\<bar>
         \<le> 1 / 2 + bolsa_disponible i / suma_bolsas cd * (of_nat (length cd) / 2)"
proof -
  let ?Q = "suma_bolsas cd"
  let ?q = "bolsa_disponible i"
  let ?A = "asignado_canales t cd"
  have Q: "0 < ?Q" by (rule suma_bolsas_pos [OF pos ne])
  from pos ci have q: "0 < ?q" by auto
  from Q q have r: "0 \<le> ?q / ?Q" by simp
  have a: "asignar_canal t ?Q ?q = py_round (t / ?Q * ?q)"
    by (rule asignar_canal_sin_tope [OF Q q t])
  from py_round_lower [of "t / ?Q * ?q"] py_round_upper [of "t / ?Q * ?q"]
  have 1: "\<bar>of_int (py_round (t / ?Q * ?q)) - t / ?Q * ?q\<bar> \<le> 1 / 2" by linarith
  have "\<bar>of_int ?A - t\<bar> \<le> of_nat (length cd) / 2"
    by (rule asignado_canales_props(1) [OF pos ne t])
  with r have "?q / ?Q * \<bar>of_int ?A - t\<bar> \<le> ?q / ?Q * (of_nat (length cd) / 2)"
    by (rule mult_left_mono [rotated])
  moreover have "?q / ?Q * \<bar>of_int ?A - t\<bar> = \<bar>?q / ?Q * of_int ?A - t / ?Q * ?q\<bar>"
  proof -
    have e: "?q / ?Q * of_int ?A - t / ?Q * ?q = ?q / ?Q * (of_int ?A - t)"
      by (simp add: algebra_simps)
    have "\<bar>?q / ?Q * (of_int ?A - t)\<bar> = \<bar>?q / ?Q\<bar> * \<bar>of_int ?A - t\<bar>"
      by (rule abs_mult)
    also have "\<bar>?q / ?Q\<bar> = ?q / ?Q" using r by (rule abs_of_nonneg)
    finally show ?thesis unfolding e by (rule sym)
  qed
  ultimately have 2: "\<bar>?q / ?Q * of_int ?A - t / ?Q * ?q\<bar> \<le> ?q / ?Q * (of_nat (length cd) / 2)"
    by simp
  show ?thesis unfolding a by (rule abs_triangulo [OF 1 2])
qed

lemma canal_traza_abierta:
  assumes abiertas: "\<forall>s \<in> set (semanas cfg). sa \<le> s"
    and factores: "\<forall>s \<in> set (semanas cfg). 0 < factor_de (factores_estacionalidad cfg) s"
    and pos: "\<forall>(c, i) \<in> set cd. 0 < bolsa_disponible i" and ne: "cd \<noteq> []"
    and filas: "\<forall>w \<in> set (semanas cfg). \<forall>(c, i) \<in> set cd.
                  filter (\<lambda>r. Channel r = c) (filter (\<lambda>r. semana_num r = w) grupo) \<noteq> []"
    and dist: "distinct (map fst cd)" and ci: "(c, i) \<in> set cd"
    and ws: "set ws \<subseteq> set (semanas cfg)"
    and cd: "canales_data st = cd"
    and a0: "0 \<le> asignaciones_acumuladas st"
    and a2: "of_int (asignaciones_acumuladas st) \<le> 2 * suma_bolsas cd"
  shows "\<bar>of_int (total_asignado_canal c
                    (concat (map snd (procesar_semanas cfg sa k grupo (suma_bolsas cd) st ws))))
           - bolsa_disponible i / suma_bolsas cd
             * (of_int (asignaciones_acumuladas (estado_tras cfg sa k grupo (suma_bolsas cd) st ws))
                - of_int (asignaciones_acumuladas st))\<bar>
         \<le> of_nat (length ws)
             * (1 / 2 + bolsa_disponible i / suma_bolsas cd * (of_nat (length cd) / 2))"
  using ws cd a0 a2
proof (induction ws arbitrary: st)
  case Nil
  then show ?case by (simp add: total_asignado_canal_Nil)
next
  case (Cons w ws)
  let ?Q = "suma_bolsas cd"
  let ?q = "bolsa_disponible i"
  let ?K = "1 / 2 + ?q / ?Q * (of_nat (length cd) / 2)"
  let ?p = "procesar_semana cfg sa k grupo ?Q st w"
  let ?st' = "fst ?p"
  let ?t = "(?Q - of_int (asignaciones_acumuladas st)) * proporcion_semana cfg w"
  from Cons.prems(1) have w: "w \<in> set (semanas cfg)" and ws: "set ws \<subseteq> set (semanas cfg)"
    by simp_all
  from w abiertas have ab: "sa \<le> w" by simp
  have pos': "\<forall>(c, i) \<in> set (canales_data st). 0 < bolsa_disponible i"
    using pos Cons.prems(2) by simp
  have filas': "\<forall>(c, i) \<in> set (canales_data st).
                  filter (\<lambda>r. Channel r = c) (filter (\<lambda>r. semana_num r = w) grupo) \<noteq> []"
    using filas w Cons.prems(2) by blast
  have ne': "canales_data st \<noteq> []" using ne Cons.prems(2) by simp
  have dist': "distinct (map fst (canales_data st))" using dist Cons.prems(2) by simp
  have ci': "(c, i) \<in> set (canales_data st)" using ci Cons.prems(2) by simp
  have "set [w] \<subseteq> set (semanas cfg)" using w by simp
  from invariante_abiertas [OF abiertas factores pos ne filas this Cons.prems(2,3,4), of k]
  have cd': "canales_data ?st' = cd" and a0': "0 \<le> asignaciones_acumuladas ?st'"
    and a2': "of_int (asignaciones_acumuladas ?st') \<le> 2 * ?Q"
    by simp_all
  from semana_abierta(2) [OF ab abiertas pos' filas' ne', of k ?Q] Cons.prems(2)
  have ac: "asignaciones_acumuladas ?st' = asignaciones_acumuladas st + asignado_canales ?t cd"
    by simp
  from canal_semana_abierta [OF ab abiertas filas' dist' ci', of k ?Q] Cons.prems(2)
  have tw: "total_asignado_canal c (snd ?p) = asignar_canal ?t ?Q ?q" by simp
  have t: "?t \<le> ?Q"
    by (rule total_abierta_le_cupo [OF proporcion_semana_cotas [OF factores w] Cons.prems(3)
          suma_bolsas_nonneg])
  from paso_canal_cerca [OF pos ne ci t]
  have paso: "\<bar>of_int (asignar_canal ?t ?Q ?q) - ?q / ?Q * of_int (asignado_canales ?t cd)\<bar> \<le> ?K" .
  let ?resto = "concat (map snd (procesar_semanas cfg sa k grupo ?Q ?st' ws))"
  let ?fin = "estado_tras cfg sa k grupo ?Q ?st' ws"
  from Cons.IH [OF ws cd' a0' a2']
  have ih: "\<bar>of_int (total_asignado_canal c ?resto)
           - ?q / ?Q * (of_int (asignaciones_acumuladas ?fin) - of_int (asignaciones_acumuladas ?st'))\<bar>
         \<le> of_nat (length ws) * ?K" .
  have rows: "concat (map snd (procesar_semanas cfg sa k grupo ?Q st (w # ws))) = snd ?p @ ?resto"
    by (simp add: case_prod_unfold Let_def)
  have fin: "estado_tras cfg sa k grupo ?Q st (w # ws) = ?fin" by simp
  have eq: "of_int (total_asignado_canal c (snd ?p @ ?resto))
           - ?q / ?Q * (of_int (asignaciones_acumuladas ?fin) - of_int (asignaciones_acumuladas st))
         = (of_int (asignar_canal ?t ?Q ?q) - ?q / ?Q * of_int (asignado_canales ?t cd))
           + (of_int (total_asignado_canal c ?resto)
              - ?q / ?Q * (of_int (asignaciones_acumuladas ?fin) - of_int (asignaciones_acumuladas ?st')))"
    unfolding total_asignado_canal_append tw ac by (simp add: algebra_simps)
  have "\<bar>of_int (total_asignado_canal c (snd ?p @ ?resto))
           - ?q / ?Q * (of_int (asignaciones_acumuladas ?fin) - of_int (asignaciones_acumuladas st))\<bar>
        \<le> ?K + of_nat (length ws) * ?K"
    unfolding eq by (rule abs_suma [OF paso ih])
  also have "\<dots> = of_nat (length (w # ws)) * ?K"
  proof -
    have "y + x * y = (1 + x) * y" for x y :: rat by (simp add: algebra_simps)
    then show ?thesis by (simp only: length_Cons of_nat_Suc)
  qed
  finally show ?case unfolding rows fin .
qed

text \<open>The initial channel table of a group with positive quotas and a row per channel and week.\<close>

lemma inicio_abiertas:
  assumes cupos: "\<forall>r \<in> set grupo. 0 < cupo_mensual_canal r"
    and filas: "\<forall>w \<in> set (semanas cfg). \<forall>c \<in> Channel ` set grupo.
                  \<exists>r \<in> set grupo. semana_num r = w \<and> Channel r = c"
  shows "\<forall>(c, i) \<in> set (canales_iniciales grupo). 0 < bolsa_disponible i"
    and "cupo_mensual_total_sku (canales_iniciales grupo) = suma_bolsas (canales_iniciales grupo)"
    and "\<forall>w \<in> set (semanas cfg). \<forall>(c, i) \<in> set (canales_iniciales grupo).
           filter (\<lambda>r. Channel r = c) (filter (\<lambda>r. semana_num r = w) grupo) \<noteq> []"
proof -
  let ?cd = "canales_iniciales grupo"
  have entrada: "0 < bolsa_disponible i \<and> cupo_mensual i = bolsa_disponible i
                   \<and> c \<in> Channel ` set grupo"
    if "(c, i) \<in> set ?cd" for c i
    using canales_iniciales_entrada [OF that] cupos by auto
  then show pos: "\<forall>(c, i) \<in> set ?cd. 0 < bolsa_disponible i" by auto
  have "map (\<lambda>(c, i). cupo_mensual i) ?cd = map (\<lambda>(c, i). bolsa_disponible i) ?cd"
    using entrada by auto
  then have "cupo_mensual_total_sku ?cd = (\<Sum>(c, i)\<leftarrow>?cd. bolsa_disponible i)"
    by (simp only: cupo_mensual_total_sku_def)
  also have "\<dots> = suma_bolsas ?cd"
    using pos by (intro suma_bolsas_todas [symmetric]) (auto intro: less_imp_le)
  finally show "cupo_mensual_total_sku ?cd = suma_bolsas ?cd" .
  show "\<forall>w \<in> set (semanas cfg). \<forall>(c, i) \<in> set ?cd.
                  filter (\<lambda>r. Channel r = c) (filter (\<lambda>r. semana_num r = w) grupo) \<noteq> []"
  proof (intro ballI, clarify)
    fix w c i assume w: "w \<in> set (semanas cfg)" and e: "(c, i) \<in> set ?cd"
      and vacio: "filter (\<lambda>r. Channel r = c) (filter (\<lambda>r. semana_num r = w) grupo) = []"
    from entrada [OF e] have "c \<in> Channel ` set grupo" by simp
    with filas w obtain r where "r \<in> set grupo" "semana_num r = w" "Channel r = c" by blast
    then have "r \<in> set (filter (\<lambda>r. Channel r = c) (filter (\<lambda>r. semana_num r = w) grupo))"
      by simp
    with vacio show False by simp
  qed
qed

lemma conservacion_canal:
  assumes abiertas: "\<forall>w \<in> set (semanas cfg). sa \<le> w"
    and distintas: "distinct (semanas cfg)" and hay: "semanas cfg \<noteq> []"
    and factores: "\<forall>w \<in> set (semanas cfg). 0 < factor_de (factores_estacionalidad cfg) w"
    and cupos: "\<forall>r \<in> set grupo. 0 < cupo_mensual_canal r"
    and filas: "\<forall>w \<in> set (semanas cfg). \<forall>c \<in> Channel ` set grupo.
                  \<exists>r \<in> set grupo. semana_num r = w \<and> Channel r = c"
    and primera: "filter (\<lambda>r. Channel r = c) grupo = r # rs"
  shows "\<bar>of_int (total_asignado_canal c (procesar_sku cfg sa k grupo)) - cupo_mensual_canal r\<bar>
         \<le> of_nat (length (semanas cfg) - 1)
             * (1 / 2 + cupo_mensual_canal r / cupo_mensual_total_sku (canales_iniciales grupo)
                          * (of_nat (length (canales_iniciales grupo)) / 2))
           + 1 / 2"
    and "0 < cupo_mensual_canal r"
    and "cupo_mensual_canal r \<le> cupo_mensual_total_sku (canales_iniciales grupo)"
proof -
  let ?cd = "canales_iniciales grupo"
  let ?Q = "suma_bolsas ?cd"
  let ?q = "cupo_mensual_canal r"
  let ?st0 = "estado_inicial grupo"
  let ?ws = "semanas_procesadas cfg"
  let ?K = "1 / 2 + ?q / ?Q * (of_nat (length ?cd) / 2)"
  note ini = inicio_abiertas [OF cupos filas]
  note pos = ini(1) and q = ini(2) and filas' = ini(3)
  have dist: "distinct (map fst ?cd)" by (rule distinct_canales_iniciales)
  from primera have rin: "r \<in> set (filter (\<lambda>r. Channel r = c) grupo)" by simp
  then have "c \<in> set (map Channel grupo)" by auto
  then have "c \<in> set (map fst ?cd)" by (simp only: claves_canales_iniciales set_unique)
  then obtain i where ci: "(c, i) \<in> set ?cd" by auto
  then have ne: "?cd \<noteq> []" by auto
  have "bolsa_de ?st0 c = bolsa_disponible i"
    using bolsa_de_entrada [of ?st0 c i] dist ci by (simp add: estado_inicial_def)
  with bolsa_de_inicial [OF primera] have qi: "bolsa_disponible i = ?q" by simp
  from pos ci qi show qpos: "0 < ?q" by auto
  from bolsa_le_suma_bolsas [OF pos ci] qi q
  show "?q \<le> cupo_mensual_total_sku ?cd" by simp
  have Q: "0 < ?Q" by (rule suma_bolsas_pos [OF pos ne])
  have set_ws: "set ?ws = set (semanas cfg)" by (simp add: semanas_procesadas_def)
  have len_ws: "length ?ws = length (semanas cfg)" by (simp add: semanas_procesadas_def)
  have ws_ne: "?ws \<noteq> []" using hay set_ws by (metis set_empty)
  let ?wl = "last ?ws"
  have ws_snoc: "?ws = butlast ?ws @ [?wl]" using ws_ne by simp
  have wl: "?wl \<in> set (semanas cfg)" using ws_ne set_ws last_in_set by blast
  have maximo: "\<forall>s \<in> set (semanas cfg). s \<le> ?wl"
    using sorted_le_last [of ?ws] set_ws by (simp add: semanas_procesadas_def)
  have p1: "proporcion_semana cfg ?wl = 1"
    using distintas wl maximo factores by (intro proporcion_ultima_semana) auto
  let ?st1 = "estado_tras cfg sa k grupo ?Q ?st0 (butlast ?ws)"
  have sub: "set (butlast ?ws) \<subseteq> set (semanas cfg)"
    using set_ws by (metis in_set_butlastD subsetI)
  have c0: "canales_data ?st0 = ?cd" and z0: "asignaciones_acumuladas ?st0 = 0"
    by (simp_all add: estado_inicial_def)
  have a00: "0 \<le> asignaciones_acumuladas ?st0"
    and a02: "of_int (asignaciones_acumuladas ?st0) \<le> 2 * ?Q"
    using z0 suma_bolsas_nonneg [of ?cd] by simp_all
  from invariante_abiertas [OF abiertas factores pos ne filas' sub c0 a00 a02, of k]
  have cd1: "canales_data ?st1 = ?cd" and a0: "0 \<le> asignaciones_acumuladas ?st1"
    by simp_all
  let ?a = "asignaciones_acumuladas ?st1"
  let ?pre = "concat (map snd (procesar_semanas cfg sa k grupo ?Q ?st0 (butlast ?ws)))"
  let ?ult = "snd (procesar_semana cfg sa k grupo ?Q ?st1 ?wl)"
  have "procesar_sku cfg sa k grupo
          = concat (map snd (procesar_semanas cfg sa k grupo ?Q ?st0 (butlast ?ws @ [?wl])))"
    unfolding procesar_sku_def traza_sku_def q using ws_snoc by simp
  also have "\<dots> = ?pre @ ?ult"
    unfolding procesar_semanas_append by (simp add: case_prod_unfold Let_def)
  finally have rows: "procesar_sku cfg sa k grupo = ?pre @ ?ult" .
  from canal_traza_abierta [OF abiertas factores pos ne filas' dist ci sub c0 a00 a02, of k]
  have pre: "\<bar>of_int (total_asignado_canal c ?pre) - ?q / ?Q * of_int ?a\<bar>
               \<le> of_nat (length (semanas cfg) - 1) * ?K"
    by (simp add: z0 qi len_ws)
  have filas1: "\<forall>(c, i) \<in> set (canales_data ?st1).
                  filter (\<lambda>r. Channel r = c) (filter (\<lambda>r. semana_num r = ?wl) grupo) \<noteq> []"
    using filas' wl cd1 by auto
  have "total_asignado_canal c ?ult = asignar_canal ((?Q - of_int ?a) * 1) ?Q ?q"
    using canal_semana_abierta [of sa ?wl cfg ?st1 grupo c i k ?Q] abiertas wl filas1 dist ci cd1 p1 qi
    by simp
  then have ult: "total_asignado_canal c ?ult = asignar_canal (?Q - of_int ?a) ?Q ?q" by simp
  from a0 have "?Q - of_int ?a \<le> ?Q" by simp
  from asignar_canal_sin_tope [OF Q qpos this]
  have ult2: "asignar_canal (?Q - of_int ?a) ?Q ?q = py_round ((?Q - of_int ?a) / ?Q * ?q)" .
  have x: "(?Q - of_int ?a) / ?Q * ?q = ?q - ?q / ?Q * of_int ?a"
    using Q by (simp add: field_simps)
  from py_round_lower [of "?q - ?q / ?Q * of_int ?a"] py_round_upper [of "?q - ?q / ?Q * of_int ?a"]
  have "\<bar>of_int (py_round (?q - ?q / ?Q * of_int ?a)) - (?q - ?q / ?Q * of_int ?a)\<bar> \<le> 1 / 2"
    by linarith
  then have ult3: "\<bar>of_int (total_asignado_canal c ?ult) - (?q - ?q / ?Q * of_int ?a)\<bar> \<le> 1 / 2"
    unfolding ult ult2 x .
  have eq: "of_int (total_asignado_canal c (procesar_sku cfg sa k grupo)) - ?q
          = (of_int (total_asignado_canal c ?pre) - ?q / ?Q * of_int ?a)
            + (of_int (total_asignado_canal c ?ult) - (?q - ?q / ?Q * of_int ?a))"
    unfolding rows total_asignado_canal_append by simp
  show "\<bar>of_int (total_asignado_canal c (procesar_sku cfg sa k grupo)) - ?q\<bar>
         \<le> of_nat (length (semanas cfg) - 1)
             * (1 / 2 + ?q / cupo_mensual_total_sku ?cd * (of_nat (length ?cd) / 2))
           + 1 / 2"
    unfolding eq q by (rule abs_suma [OF pre ult3])
qed

text \<open>With at most five weeks and three channels the bound is within 10 units.\<close>

lemma cota_canal_tolerancia:
  fixes q Q :: rat and n C :: nat
  assumes "0 < q" and "q \<le> Q" and "n \<le> 5" and "C \<le> 3"
  shows "of_nat (n - 1) * (1 / 2 + q / Q * (of_nat C / 2)) + 1 / 2 \<le> max (q * (1 / 100)) 10"
proof -
  from assms(1,2) have Q: "0 < Q" by simp
  with assms(1,2) have r0: "0 \<le> q / Q" and r1: "q / Q \<le> 1" by simp_all
  from assms(4) have c: "(of_nat C :: rat) / 2 \<le> 3 / 2" by simp
  have c0: "(0::rat) \<le> of_nat C / 2" by simp
  from mult_mono [OF r1 c _ c0] have "q / Q * (of_nat C / 2) \<le> 3 / 2" by simp
  then have k: "1 / 2 + q / Q * (of_nat C / 2) \<le> 2" by simp
  from mult_nonneg_nonneg [OF r0 c0] have k0: "0 \<le> 1 / 2 + q / Q * (of_nat C / 2)"
    by (intro add_nonneg_nonneg) simp_all
  from assms(3) have "n - 1 \<le> 4" by simp
  then have n: "(of_nat (n - 1) :: rat) \<le> 4" by (metis of_nat_le_iff of_nat_numeral)
  from mult_mono [OF n k _ k0]
  have "of_nat (n - 1) * (1 / 2 + q / Q * (of_nat C / 2)) \<le> 8" by simp
  then show ?thesis by simp
qed

section \<open>Claims\<close>

subsection \<open>C1: quota conservation\<close>

text \<open>
  C1 as stated fails, in two ways.

  With a closed week: one SKU, one channel A with quota 1000, two weeks of equal weight,
  week 1 closed with no sales, week 2 current (\<open>semana_actual = 2\<close>). In week 1 the
  physical inventory (1000) and the sum of the balances (1000) are above the theoretical
  amount (500), so no cap binds. Week 1 assigns 500; week 2 subtracts only the sales of
  week 1, which are 0, and assigns 1000. Channel A gets 1500 against a quota of 1000, and
  the tolerance is 10.

  With open weeks only: \<^verbatim>\<open>'Enero 2026'\<close> with \<open>semana_actual = 1\<close>, channel A with
  quota 1000 and seven channels with quota 3. No week is below the current one, so no
  cap applies. Each small channel is owed about 0.6 units a week and gets 1, and what the
  small channels get above their share is taken out of the pool of the later weeks:
  channel A gets 989 units, 11 away from its quota, with a tolerance of 10.
\<close>

theorem conservacion_cupo_contraejemplo:
  "fisico_semana (estado_inicial df_un_canal) (df_un_canal ! 0) = 1000
   \<and> suma_bolsas (canales_data (estado_inicial df_un_canal)) = 1000
   \<and> inventario_teorico_semana config_dos_semanas 2 df_un_canal
        (cupo_mensual_total_sku (canales_iniciales df_un_canal)) (estado_inicial df_un_canal) 1 = 500
   \<and> total_a_distribuir config_dos_semanas 2 df_un_canal
        (cupo_mensual_total_sku (canales_iniciales df_un_canal)) (estado_inicial df_un_canal) 1
        (df_un_canal ! 0) = 500
   \<and> total_asignado_canal ''A''
        (fst (calcular_asignacion_semanal_secuencial df_un_canal config_dos_semanas 2)) = 1500
   \<and> bolsa_de (estado_inicial df_un_canal) ''A'' = 1000
   \<and> \<not> \<bar>(1500::rat) - 1000\<bar> \<le> max (1000 * (1 / 100)) 10
   \<and> filter (\<lambda>w. w < 1) (semanas enero_2026) = []
   \<and> total_asignado_canal ''A''
        (fst (calcular_asignacion_semanal_secuencial df_ocho_canales enero_2026 1)) = 989
   \<and> bolsa_de (estado_inicial df_ocho_canales) ''A'' = 1000
   \<and> \<not> \<bar>(989::rat) - 1000\<bar> \<le> max (1000 * (1 / 100)) 10"
  by code_simp

text \<open>
  With open weeks only, the units assigned to a SKU over all its channels and weeks miss
  the SKU's quota by at most half a unit per channel.
\<close>

lemma conservacion_total_sku:
  assumes abiertas: "\<forall>w \<in> set (semanas cfg). sa \<le> w"
    and distintas: "distinct (semanas cfg)" and hay: "semanas cfg \<noteq> []"
    and factores: "\<forall>w \<in> set (semanas cfg). 0 < factor_de (factores_estacionalidad cfg) w"
    and cupos: "\<forall>r \<in> set grupo. 0 < cupo_mensual_canal r"
    and filas: "\<forall>w \<in> set (semanas cfg). \<forall>c \<in> Channel ` set grupo.
                  \<exists>r \<in> set grupo. semana_num r = w \<and> Channel r = c"
    and grupo: "grupo \<noteq> []"
  shows "\<bar>of_int (sum_list (map asignacion_canal (procesar_sku cfg sa k grupo)))
           - cupo_mensual_total_sku (canales_iniciales grupo)\<bar>
         \<le> of_nat (length (canales_iniciales grupo)) / 2"
proof -
  let ?cd = "canales_iniciales grupo"
  let ?q = "suma_bolsas ?cd"
  let ?st0 = "estado_inicial grupo"
  let ?ws = "semanas_procesadas cfg"
  have entrada: "0 < bolsa_disponible i \<and> cupo_mensual i = bolsa_disponible i
                   \<and> c \<in> Channel ` set grupo"
    if "(c, i) \<in> set ?cd" for c i
    using canales_iniciales_entrada [OF that] cupos by auto
  then have pos: "\<forall>(c, i) \<in> set ?cd. 0 < bolsa_disponible i" by auto
  have ne: "?cd \<noteq> []"
  proof
    assume "?cd = []"
    then have "map fst ?cd = []" by simp
    then have "set (map Channel grupo) = {}"
      unfolding claves_canales_iniciales by (metis set_unique set_empty)
    with grupo show False by simp
  qed
  have "map (\<lambda>(c, i). cupo_mensual i) ?cd = map (\<lambda>(c, i). bolsa_disponible i) ?cd"
    using entrada by auto
  then have "cupo_mensual_total_sku ?cd = (\<Sum>(c, i)\<leftarrow>?cd. bolsa_disponible i)"
    by (simp only: cupo_mensual_total_sku_def)
  also have "\<dots> = ?q"
    using pos by (intro suma_bolsas_todas [symmetric]) (auto intro: less_imp_le)
  finally have q: "cupo_mensual_total_sku ?cd = ?q" .
  have filas': "\<forall>w \<in> set (semanas cfg). \<forall>(c, i) \<in> set ?cd.
                  filter (\<lambda>r. Channel r = c) (filter (\<lambda>r. semana_num r = w) grupo) \<noteq> []"
  proof (intro ballI, clarify)
    fix w c i assume w: "w \<in> set (semanas cfg)" and e: "(c, i) \<in> set ?cd"
      and vacio: "filter (\<lambda>r. Channel r = c) (filter (\<lambda>r. semana_num r = w) grupo) = []"
    from entrada [OF e] have "c \<in> Channel ` set grupo" by simp
    with filas w obtain r where "r \<in> set grupo" "semana_num r = w" "Channel r = c" by blast
    then have "r \<in> set (filter (\<lambda>r. Channel r = c) (filter (\<lambda>r. semana_num r = w) grupo))"
      by simp
    with vacio show False by simp
  qed
  have set_ws: "set ?ws = set (semanas cfg)" by (simp add: semanas_procesadas_def)
  have ws_ne: "?ws \<noteq> []" using hay set_ws by (metis set_empty)
  let ?wl = "last ?ws"
  have ws_snoc: "?ws = butlast ?ws @ [?wl]" using ws_ne by simp
  have wl: "?wl \<in> set (semanas cfg)" using ws_ne set_ws last_in_set by blast
  have maximo: "\<forall>s \<in> set (semanas cfg). s \<le> ?wl"
    using sorted_le_last [of ?ws] set_ws by (simp add: semanas_procesadas_def)
  have p1: "proporcion_semana cfg ?wl = 1"
    using distintas wl maximo factores by (intro proporcion_ultima_semana) auto
  let ?st1 = "estado_tras cfg sa k grupo ?q ?st0 (butlast ?ws)"
  have "set (butlast ?ws) \<subseteq> set (semanas cfg)"
    using set_ws by (metis in_set_butlastD subsetI)
  from invariante_abiertas [OF abiertas factores pos ne filas' this, of ?st0 k]
  have cd1: "canales_data ?st1 = ?cd" and a0: "0 \<le> asignaciones_acumuladas ?st1"
    by (simp_all add: estado_inicial_def suma_bolsas_nonneg)
  let ?a = "asignaciones_acumuladas ?st1"
  let ?fin = "estado_tras cfg sa k grupo ?q ?st0 ?ws"
  have fin: "?fin = fst (procesar_semana cfg sa k grupo ?q ?st1 ?wl)"
    using estado_tras_snoc [of cfg sa k grupo ?q ?st0 "butlast ?ws" ?wl] ws_snoc by simp
  have "asignaciones_acumuladas ?fin = ?a + asignado_canales ((?q - of_int ?a) * 1) ?cd"
    unfolding fin
    using semana_abierta(2) [of sa ?wl cfg ?st1 grupo k ?q] abiertas wl pos filas' ne cd1 p1
    by simp
  then have acfin: "asignaciones_acumuladas ?fin = ?a + asignado_canales (?q - of_int ?a) ?cd"
    by simp
  from a0 have "?q - of_int ?a \<le> ?q" by simp
  from asignado_canales_props(1) [OF pos ne this]
  have cerca: "\<bar>of_int (asignado_canales (?q - of_int ?a) ?cd) - (?q - of_int ?a)\<bar>
                 \<le> of_nat (length ?cd) / 2" .
  have "sum_list (map asignacion_canal (procesar_sku cfg sa k grupo))
          = asignaciones_acumuladas ?fin - asignaciones_acumuladas ?st0"
    unfolding procesar_sku_def traza_sku_def q
    using abiertas set_ws by (intro suma_traza_abierta) simp
  then have "sum_list (map asignacion_canal (procesar_sku cfg sa k grupo))
          = ?a + asignado_canales (?q - of_int ?a) ?cd"
    using acfin by (simp add: estado_inicial_def)
  then have e: "of_int (sum_list (map asignacion_canal (procesar_sku cfg sa k grupo))) - ?q
          = of_int (asignado_canales (?q - of_int ?a) ?cd) - (?q - of_int ?a)"
    by simp
  show ?thesis unfolding q e by (rule cerca)
qed

text \<open>
  C1, amended. Let the code treat every configured week as current or future (every week
  number is at least \<open>semana_actual\<close>), the weeks be distinct with positive seasonality
  factors, every quota be positive and every channel have a row in every week. Then for
  every channel, with \<open>q\<close> its monthly quota, \<open>Q\<close> the sum of the quotas of the SKU, \<open>n\<close>
  the number of weeks and \<open>C\<close> the number of channels, the units assigned to the channel
  over all the weeks differ from \<open>q\<close> by at most \<open>(n - 1) * (1/2 + q/Q * C/2) + 1/2\<close>. So
  they are within the tolerance max(1% of \<open>q\<close>, 10) when the month has at most 5 weeks and
  the SKU at most 3 channels. The units assigned to the SKU over all channels and weeks
  differ from \<open>Q\<close> by at most \<open>C/2\<close>.
\<close>

theorem conservacion_cupo_semanas_abiertas:
  assumes abiertas: "\<forall>w \<in> set (semanas cfg). sa \<le> w"
    and distintas: "distinct (semanas cfg)" and hay: "semanas cfg \<noteq> []"
    and factores: "\<forall>w \<in> set (semanas cfg). 0 < factor_de (factores_estacionalidad cfg) w"
    and cupos: "\<forall>r \<in> set grupo. 0 < cupo_mensual_canal r"
    and filas: "\<forall>w \<in> set (semanas cfg). \<forall>c \<in> Channel ` set grupo.
                  \<exists>r \<in> set grupo. semana_num r = w \<and> Channel r = c"
    and primera: "filter (\<lambda>r. Channel r = c) grupo = r # rs"
  shows "\<bar>of_int (total_asignado_canal c (procesar_sku cfg sa k grupo)) - cupo_mensual_canal r\<bar>
           \<le> of_nat (length (semanas cfg) - 1)
               * (1 / 2 + cupo_mensual_canal r / cupo_mensual_total_sku (canales_iniciales grupo)
                            * (of_nat (length (canales_iniciales grupo)) / 2))
             + 1 / 2
       \<and> (length (semanas cfg) \<le> 5 \<and> length (canales_iniciales grupo) \<le> 3 \<longrightarrow>
            \<bar>of_int (total_asignado_canal c (procesar_sku cfg sa k grupo)) - cupo_mensual_canal r\<bar>
              \<le> max (cupo_mensual_canal r * (1 / 100)) 10)
       \<and> \<bar>of_int (sum_list (map asignacion_canal (procesar_sku cfg sa k grupo)))
            - cupo_mensual_total_sku (canales_iniciales grupo)\<bar>
           \<le> of_nat (length (canales_iniciales grupo)) / 2"
proof (intro conjI impI)
  note canal =
    conservacion_canal(1) [OF abiertas distintas hay factores cupos filas primera, of k]
    conservacion_canal(2) [OF abiertas distintas hay factores cupos filas primera]
    conservacion_canal(3) [OF abiertas distintas hay factores cupos filas primera]
  show 1: "\<bar>of_int (total_asignado_canal c (procesar_sku cfg sa k grupo)) - cupo_mensual_canal r\<bar>
           \<le> of_nat (length (semanas cfg) - 1)
               * (1 / 2 + cupo_mensual_canal r / cupo_mensual_total_sku (canales_iniciales grupo)
                            * (of_nat (length (canales_iniciales grupo)) / 2))
             + 1 / 2"
    by (rule canal(1))
  show "\<bar>of_int (total_asignado_canal c (procesar_sku cfg sa k grupo)) - cupo_mensual_canal r\<bar>
              \<le> max (cupo_mensual_canal r * (1 / 100)) 10"
    if "length (semanas cfg) \<le> 5 \<and> length (canales_iniciales grupo) \<le> 3"
  proof -
    from that have n: "length (semanas cfg) \<le> 5" and C: "length (canales_iniciales grupo) \<le> 3"
      by simp_all
    from 1 cota_canal_tolerancia [OF canal(2) canal(3) n C] show ?thesis by (rule order_trans)
  qed
  from primera have "r \<in> set (filter (\<lambda>r. Channel r = c) grupo)" by simp
  then have "grupo \<noteq> []" by auto
  from conservacion_total_sku [OF abiertas distintas hay factores cupos filas this]
  show "\<bar>of_int (sum_list (map asignacion_canal (procesar_sku cfg sa k grupo)))
            - cupo_mensual_total_sku (canales_iniciales grupo)\<bar>
           \<le> of_nat (length (canales_iniciales grupo)) / 2" .
qed

theorem conservacion_cupo_semanas_abiertas_testigo:
  "cupo_mensual_canal (df_dos_canales ! 0) = 100
   \<and> cupo_mensual_total_sku (canales_iniciales df_dos_canales) = 200
   \<and> length (canales_iniciales df_dos_canales) = 2
   \<and> length (semanas config_dos_semanas) = 2
   \<and> \<bar>of_int (total_asignado_canal ''A'' (procesar_sku config_dos_semanas 1 ''S'' df_dos_canales))
        - cupo_mensual_canal (df_dos_canales ! 0)\<bar>
       \<le> max (cupo_mensual_canal (df_dos_canales ! 0) * (1 / 100)) 10
   \<and> \<bar>of_int (sum_list (map asignacion_canal
                             (procesar_sku config_dos_semanas 1 ''S'' df_dos_canales)))
        - cupo_mensual_total_sku (canales_iniciales df_dos_canales)\<bar>
       \<le> of_nat (length (canales_iniciales df_dos_canales)) / 2"
proof -
  have h1: "\<forall>w \<in> set (semanas config_dos_semanas). 1 \<le> w" by code_simp
  have h2: "distinct (semanas config_dos_semanas)" by code_simp
  have h3: "semanas config_dos_semanas \<noteq> []" by code_simp
  have h4: "\<forall>w \<in> set (semanas config_dos_semanas).
              0 < factor_de (factores_estacionalidad config_dos_semanas) w" by code_simp
  have h5: "\<forall>r \<in> set df_dos_canales. 0 < cupo_mensual_canal r" by code_simp
  have h6: "\<forall>w \<in> set (semanas config_dos_semanas). \<forall>c \<in> Channel ` set df_dos_canales.
                  \<exists>r \<in> set df_dos_canales. semana_num r = w \<and> Channel r = c" by code_simp
  have h7: "filter (\<lambda>r. Channel r = ''A'') df_dos_canales
              = df_dos_canales ! 0 # [df_dos_canales ! 2]" by code_simp
  have v: "cupo_mensual_canal (df_dos_canales ! 0) = 100
   \<and> cupo_mensual_total_sku (canales_iniciales df_dos_canales) = 200
   \<and> length (canales_iniciales df_dos_canales) = 2
   \<and> length (semanas config_dos_semanas) = 2" by code_simp
  then have n: "length (semanas config_dos_semanas) \<le> 5
               \<and> length (canales_iniciales df_dos_canales) \<le> 3" by simp
  from conservacion_cupo_semanas_abiertas [OF h1 h2 h3 h4 h5 h6 h7, of "''S''"] n v
  show ?thesis by blast
qed

subsection \<open>C2: the total to distribute in a week\<close>

text \<open>
  The total to distribute, with the code's own test for a closed week: the week number is
  below \<open>semana_actual\<close>. With non-negative balances and positive seasonality factors,
  the total of a configured week \<open>w\<close> is the theoretical amount when \<open>semana_actual \<le> w\<close>,
  and otherwise the minimum of the physical inventory of the week, the theoretical amount
  and the sum of all channel balances. The theoretical amount is the pool (total quota,
  less the sales of the weeks numbered below both \<open>w\<close> and \<open>semana_actual\<close>, less the
  accumulated assignments) times the factor of \<open>w\<close> over the sum of the factors of the
  weeks numbered \<open>w\<close> or more.
\<close>

lemma total_a_distribuir_por_numero:
  assumes bolsas: "\<forall>(c, i) \<in> set (canales_data st). 0 \<le> bolsa_disponible i"
    and factores: "\<forall>s \<in> set (semanas cfg). 0 < factor_de (factores_estacionalidad cfg) s"
    and w: "w \<in> set (semanas cfg)"
    and teorico: "teorico =
        (cupo - (\<Sum>s\<leftarrow>filter (\<lambda>s. s < w \<and> s < sa) (semanas cfg).
                    \<Sum>r\<leftarrow>filter (\<lambda>r. semana_num r = s) grupo. ventas_reales r)
              - of_int (asignaciones_acumuladas st))
        * (factor_de (factores_estacionalidad cfg) w
            / (\<Sum>s\<leftarrow>filter (\<lambda>s. w \<le> s) (semanas cfg). factor_de (factores_estacionalidad cfg) s))"
  shows "total_a_distribuir cfg sa grupo cupo st w pf =
           (if sa \<le> w then teorico
            else min (fisico_semana st pf)
                   (min teorico (\<Sum>(c, i)\<leftarrow>canales_data st. bolsa_disponible i)))"
proof -
  from suma_factores_restantes_pos [OF factores w]
  have "proporcion_semana cfg w =
          factor_de (factores_estacionalidad cfg) w
            / (\<Sum>s\<leftarrow>filter (\<lambda>s. w \<le> s) (semanas cfg). factor_de (factores_estacionalidad cfg) s)"
    by (simp add: proporcion_semana_def suma_factores_restantes_def)
  then have "inventario_teorico_semana cfg sa grupo cupo st w = teorico"
    by (simp add: teorico inventario_teorico_semana_def inventario_disponible_mes_def
        ventas_reales_pasadas_def)
  then show ?thesis
    by (simp add: total_a_distribuir_def inventario_semanal_total_def suma_bolsas_todas [OF bolsas])
qed

text \<open>
  C2. By the dates of the month table the code does not follow the policy, because it
  decides closed and open by comparing the week's number with the ISO week number of
  today, not by the week's end date. \<^verbatim>\<open>'Enero 2026'\<close>, one channel with quota 100,
  5 units of stock every week.

  On 2026-01-07 the ISO week is 2. Week 1 runs from 2026-01-04 to 2026-01-10 and is the
  current week, yet 1 is below 2 and the code caps it: the theoretical amount is 20 and
  the total to distribute is 5, the physical inventory.

  On 2026-01-12 the ISO week is 3. Week 53 ended on 2026-01-03 and is closed, yet 53 is
  not below 3 and the code does not cap it: with 5 units of stock the total to
  distribute is the theoretical amount, 20, and the row of week 53 assigns 20 units.

  On Sunday 2025-12-07 the ISO week is still 49, and week 49 of \<^verbatim>\<open>'Diciembre 2025'\<close>, which
  ended the day before, is treated as open.
\<close>

theorem total_semanal_por_fechas:
  "semana_iso (2026, 1, 7) = 2
   \<and> \<not> semana_terminada enero_2026 (2026, 1, 7) 1
   \<and> inventario_teorico_semana enero_2026 (semana_iso (2026, 1, 7)) df_enero_un_canal
        (cupo_mensual_total_sku (canales_iniciales df_enero_un_canal))
        (estado_inicial df_enero_un_canal) 1 = 20
   \<and> fisico_semana (estado_inicial df_enero_un_canal) (df_enero_un_canal ! 1) = 5
   \<and> total_a_distribuir enero_2026 (semana_iso (2026, 1, 7)) df_enero_un_canal
        (cupo_mensual_total_sku (canales_iniciales df_enero_un_canal))
        (estado_inicial df_enero_un_canal) 1 (df_enero_un_canal ! 1) = 5
   \<and> semana_iso (2026, 1, 12) = 3
   \<and> semana_terminada enero_2026 (2026, 1, 12) 53
   \<and> fisico_semana
        (estado_tras enero_2026 (semana_iso (2026, 1, 12)) ''S'' df_enero_un_canal
           (cupo_mensual_total_sku (canales_iniciales df_enero_un_canal))
           (estado_inicial df_enero_un_canal) [1, 2, 3, 4])
        (df_enero_un_canal ! 0) = 5
   \<and> total_a_distribuir enero_2026 (semana_iso (2026, 1, 12)) df_enero_un_canal
        (cupo_mensual_total_sku (canales_iniciales df_enero_un_canal))
        (estado_tras enero_2026 (semana_iso (2026, 1, 12)) ''S'' df_enero_un_canal
           (cupo_mensual_total_sku (canales_iniciales df_enero_un_canal))
           (estado_inicial df_enero_un_canal) [1, 2, 3, 4])
        53 (df_enero_un_canal ! 0) = 20
   \<and> semana
        (fst (calcular_asignacion_semanal_secuencial df_enero_un_canal enero_2026
                (semana_iso (2026, 1, 12))) ! 4) = 53
   \<and> asignacion_canal
        (fst (calcular_asignacion_semanal_secuencial df_enero_un_canal enero_2026
                (semana_iso (2026, 1, 12))) ! 4) = 20
   \<and> semana_iso (2025, 12, 7) = 49
   \<and> semana_terminada diciembre_2025 (2025, 12, 7) 49
   \<and> inventario_semanal_total (semana_iso (2025, 12, 7)) 49 5 20 100 = 20"
  by code_simp

subsection \<open>C3: bounds of an assignment\<close>

text \<open>
  C3 as stated fails on both sides. Quotas 100 (A), 100 (B) and 0.75 (C), seasonality
  factors 3 and 1, week 1 closed, week 2 current. In week 1 channel C, with balance 0.75,
  gets 0.5625 units before rounding and its row says 1, above the balance. Channel A
  sells 300 units in week 1, more than the whole quota of the SKU, so the pool of week 2
  is negative and the row of channel B in week 2 assigns -99 units.
\<close>

theorem asignacion_acotada_contraejemplo:
  "semana (fst (calcular_asignacion_semanal_secuencial df_tres_canales config_tres_a_uno 2) ! 2) = 1
   \<and> canal (fst (calcular_asignacion_semanal_secuencial df_tres_canales config_tres_a_uno 2) ! 2)
       = ''C''
   \<and> asignacion_canal
        (fst (calcular_asignacion_semanal_secuencial df_tres_canales config_tres_a_uno 2) ! 2) = 1
   \<and> bolsa_de (estado_inicial df_tres_canales) ''C'' = 3 / 4
   \<and> semana (fst (calcular_asignacion_semanal_secuencial df_tres_canales config_tres_a_uno 2) ! 4) = 2
   \<and> canal (fst (calcular_asignacion_semanal_secuencial df_tres_canales config_tres_a_uno 2) ! 4)
       = ''B''
   \<and> asignacion_canal
        (fst (calcular_asignacion_semanal_secuencial df_tres_canales config_tres_a_uno 2) ! 4) = - 99"
  by code_simp

text \<open>
  C3, amended. In a week whose total to distribute is not negative, a channel with a
  non-negative balance is assigned at least 0 units and at most its balance before the
  week rounded to the nearest integer (a tie to the even one); so at most the balance
  itself when that is a whole number. The week has a row, so the first row of the week
  exists.
\<close>

theorem asignacion_acotada:
  assumes dist: "distinct (map fst (canales_data st))"
    and r: "r \<in> set (snd (procesar_semana cfg sa k grupo cupo st w))"
    and tot: "0 \<le> total_a_distribuir cfg sa grupo cupo st w
                    (hd (filter (\<lambda>r. semana_num r = w) grupo))"
    and bolsa: "0 \<le> bolsa_de st (canal r)"
  shows "0 \<le> asignacion_canal r
       \<and> asignacion_canal r \<le> py_round (bolsa_de st (canal r))
       \<and> (bolsa_de st (canal r) \<in> \<int> \<longrightarrow> of_int (asignacion_canal r) \<le> bolsa_de st (canal r))"
proof -
  from asignacion_fila_semana [OF dist r] obtain pf otras
    where f: "filter (\<lambda>r. semana_num r = w) grupo = pf # otras"
      and a: "asignacion_canal r =
             asignar_canal (total_a_distribuir cfg sa grupo cupo st w pf)
               (suma_bolsas (canales_data st)) (bolsa_de st (canal r))"
    by blast
  from tot f have t: "0 \<le> total_a_distribuir cfg sa grupo cupo st w pf" by simp
  have 1: "0 \<le> asignacion_canal r"
    unfolding a by (rule asignar_canal_nonneg [OF t bolsa])
  have 2: "asignacion_canal r \<le> py_round (bolsa_de st (canal r))"
    unfolding a by (rule asignar_canal_le)
  have 3: "of_int (asignacion_canal r) \<le> bolsa_de st (canal r)" if "bolsa_de st (canal r) \<in> \<int>"
  proof -
    from 2 have "(of_int (asignacion_canal r) :: rat) \<le> of_int (py_round (bolsa_de st (canal r)))"
      by simp
    with py_round_Ints [OF that] show ?thesis by simp
  qed
  from 1 2 3 show ?thesis by blast
qed

theorem asignacion_acotada_testigo:
  "canal (snd (procesar_semana config_dos_semanas 2 ''S'' df_dos_canales 200
                 (estado_inicial df_dos_canales) 1) ! 0) = ''A''
   \<and> bolsa_de (estado_inicial df_dos_canales) ''A'' = 100
   \<and> 0 \<le> asignacion_canal (snd (procesar_semana config_dos_semanas 2 ''S'' df_dos_canales 200
                 (estado_inicial df_dos_canales) 1) ! 0)
   \<and> of_int (asignacion_canal (snd (procesar_semana config_dos_semanas 2 ''S'' df_dos_canales 200
                 (estado_inicial df_dos_canales) 1) ! 0)) \<le> (100::rat)"
proof -
  let ?st = "estado_inicial df_dos_canales"
  let ?filas = "snd (procesar_semana config_dos_semanas 2 ''S'' df_dos_canales 200 ?st 1)"
  have h1: "distinct (map fst (canales_data ?st))" by code_simp
  have "0 < length ?filas" by code_simp
  then have h2: "?filas ! 0 \<in> set ?filas" by (rule nth_mem)
  have h3: "0 \<le> total_a_distribuir config_dos_semanas 2 df_dos_canales 200 ?st 1
                    (hd (filter (\<lambda>r. semana_num r = 1) df_dos_canales))" by code_simp
  have c: "canal (?filas ! 0) = ''A''" by code_simp
  have b: "bolsa_de ?st ''A'' = 100" by code_simp
  have h4: "0 \<le> bolsa_de ?st (canal (?filas ! 0))" unfolding c b by simp
  have z: "bolsa_de ?st (canal (?filas ! 0)) \<in> \<int>" unfolding c b by simp
  from asignacion_acotada [OF h1 h2 h3 h4] z
  have "0 \<le> asignacion_canal (?filas ! 0)"
    and "of_int (asignacion_canal (?filas ! 0)) \<le> bolsa_de ?st (canal (?filas ! 0))"
    by blast+
  then show ?thesis unfolding c b using c b by simp
qed

subsection \<open>C4: the order of the weeks\<close>

text \<open>
  C4. The weeks are visited in the order of \<^verbatim>\<open>sorted(config['semanas'])\<close>, that is
  by week number. For \<^verbatim>\<open>'Diciembre 2025'\<close> this is the order of the start dates. For
  \<^verbatim>\<open>'Enero 2026'\<close> it is not: week 53, which starts on 2025-12-28 and is the first week
  of the month, is visited last, after week 4, and its rows come last in the result.
\<close>

theorem orden_enero_2026:
  "semanas_procesadas enero_2026 = [1, 2, 3, 4, 53]
   \<and> orden_cronologico enero_2026 = [53, 1, 2, 3, 4]
   \<and> map semana (fst (calcular_asignacion_semanal_secuencial df_enero enero_2026 2)) = [1, 53]
   \<and> semanas_procesadas diciembre_2025 = orden_cronologico diciembre_2025"
  by code_simp

subsection \<open>C5: the validation\<close>

text \<open>
  C5 as stated fails: the validation does not look at channels. Two channels with quota
  100 each; channel A sells 100 units in the closed week 1. Over the month channel A is
  assigned 50 units, 50 away from its quota with a tolerance of 10, and the only line
  printed is the OK line of the SKU, whose total of 200 matches the total quota.
\<close>

theorem validacion_por_canal_contraejemplo:
  "snd (calcular_asignacion_semanal_secuencial df_dos_canales config_dos_semanas 2)
     = [OK ''S'' 200 100 200 100]
   \<and> total_asignado_canal ''A''
        (fst (calcular_asignacion_semanal_secuencial df_dos_canales config_dos_semanas 2)) = 50
   \<and> bolsa_de (estado_inicial df_dos_canales) ''A'' = 100
   \<and> max ((100::rat) * (1 / 100)) 10 < \<bar>50 - 100\<bar>"
  by code_simp

text \<open>
  C5, amended. For each SKU of the plan the validation compares the units assigned over
  all channels and weeks of the SKU with the \<open>cupo_mensual_total\<close> of the SKU's first
  row, with tolerance max(1% of that quota, 10). A warning is printed for SKU \<open>k\<close> exactly
  when the difference exceeds the tolerance, and it carries the SKU, the assigned total,
  the quota and the difference. The plan returned is the rows of the SKU passes, whatever
  the validation prints.
\<close>

theorem validacion_por_sku:
  "(WARNING k a q d \<in> set (snd (calcular_asignacion_semanal_secuencial df cfg sa)) \<longleftrightarrow>
     (\<exists>primera otras.
        filter (\<lambda>r. sku_res r = k) (fst (calcular_asignacion_semanal_secuencial df cfg sa))
          = primera # otras \<and>
        a = sum_list (map asignacion_canal (primera # otras)) \<and>
        q = cupo_mensual_total_res primera \<and>
        d = \<bar>of_int a - q\<bar> \<and>
        max (q * (1 / 100)) 10 < d))
   \<and> fst (calcular_asignacion_semanal_secuencial df cfg sa) =
       concat (map (\<lambda>k. procesar_sku cfg sa k (filter (\<lambda>r. sku r = k) df))
                 (claves_groupby (map sku df)))"
proof
  let ?plan = "fst (calcular_asignacion_semanal_secuencial df cfg sa)"
  have s: "snd (calcular_asignacion_semanal_secuencial df cfg sa) = validacion ?plan"
    by (simp add: calcular_asignacion_semanal_secuencial_def Let_def)
  have 1: "WARNING k a q d \<in> set (validacion ?plan) \<longleftrightarrow>
     (\<exists>k' \<in> set (map sku_res ?plan).
        WARNING k a q d \<in> set (validacion_sku k' (filter (\<lambda>r. sku_res r = k') ?plan)))"
    unfolding validacion_def set_concat set_map set_claves_groupby by blast
  have 2: "(\<exists>k' \<in> set (map sku_res ?plan).
        WARNING k a q d \<in> set (validacion_sku k' (filter (\<lambda>r. sku_res r = k') ?plan)))
     \<longleftrightarrow> WARNING k a q d \<in> set (validacion_sku k (filter (\<lambda>r. sku_res r = k) ?plan))"
  proof
    assume "\<exists>k' \<in> set (map sku_res ?plan).
        WARNING k a q d \<in> set (validacion_sku k' (filter (\<lambda>r. sku_res r = k') ?plan))"
    then obtain k' where "WARNING k a q d \<in> set (validacion_sku k' (filter (\<lambda>r. sku_res r = k') ?plan))"
      by blast
    moreover from this have "k = k'" unfolding validacion_sku_warning by blast
    ultimately show "WARNING k a q d \<in> set (validacion_sku k (filter (\<lambda>r. sku_res r = k) ?plan))"
      by simp
  next
    assume w: "WARNING k a q d \<in> set (validacion_sku k (filter (\<lambda>r. sku_res r = k) ?plan))"
    then obtain primera otras where "filter (\<lambda>r. sku_res r = k) ?plan = primera # otras"
      unfolding validacion_sku_warning by blast
    then have "primera \<in> set (filter (\<lambda>r. sku_res r = k) ?plan)" by simp
    then have "primera \<in> set ?plan" and "sku_res primera = k" by simp_all
    then have "k \<in> set (map sku_res ?plan)" unfolding set_map by blast
    with w show "\<exists>k' \<in> set (map sku_res ?plan).
        WARNING k a q d \<in> set (validacion_sku k' (filter (\<lambda>r. sku_res r = k') ?plan))"
      by blast
  qed
  have 3: "WARNING k a q d \<in> set (validacion_sku k (filter (\<lambda>r. sku_res r = k) ?plan)) \<longleftrightarrow>
     (\<exists>primera otras.
        filter (\<lambda>r. sku_res r = k) ?plan = primera # otras \<and>
        a = sum_list (map asignacion_canal (primera # otras)) \<and>
        q = cupo_mensual_total_res primera \<and>
        d = \<bar>of_int a - q\<bar> \<and>
        max (q * (1 / 100)) 10 < d)"
    unfolding validacion_sku_warning by metis
  from 1 2 3 show "WARNING k a q d \<in> set (snd (calcular_asignacion_semanal_secuencial df cfg sa)) \<longleftrightarrow>
     (\<exists>primera otras.
        filter (\<lambda>r. sku_res r = k) ?plan = primera # otras \<and>
        a = sum_list (map asignacion_canal (primera # otras)) \<and>
        q = cupo_mensual_total_res primera \<and>
        d = \<bar>of_int a - q\<bar> \<and>
        max (q * (1 / 100)) 10 < d)"
    unfolding s by blast
next
  show "fst (calcular_asignacion_semanal_secuencial df cfg sa) =
       concat (map (\<lambda>k. procesar_sku cfg sa k (filter (\<lambda>r. sku r = k) df))
                 (claves_groupby (map sku df)))"
    by (simp add: calcular_asignacion_semanal_secuencial_def Let_def)
qed

theorem validacion_por_sku_testigo:
  "WARNING ''S'' 1500 1000 500
     \<in> set (snd (calcular_asignacion_semanal_secuencial df_un_canal config_dos_semanas 2))
   \<and> (\<exists>primera otras.
        filter (\<lambda>r. sku_res r = ''S'')
          (fst (calcular_asignacion_semanal_secuencial df_un_canal config_dos_semanas 2))
          = primera # otras \<and>
        (1500::int) = sum_list (map asignacion_canal (primera # otras)) \<and>
        (1000::rat) = cupo_mensual_total_res primera)"
proof -
  have w: "WARNING ''S'' 1500 1000 500
     \<in> set (snd (calcular_asignacion_semanal_secuencial df_un_canal config_dos_semanas 2))"
    by code_simp
  with validacion_por_sku [of "''S''" 1500 1000 500 df_un_canal config_dos_semanas 2]
  show ?thesis by blast
qed

subsection \<open>C6: balances never grow\<close>

text \<open>
  Balances along the weeks, with the code's own test for a closed week. For a channel
  \<open>c\<close> whose quotas and recorded sales are not negative: the balance starts at the quota
  of the channel's first row; along the weeks of the month, in the order they are
  visited, the balance never grows; and one week changes the balance of a channel only
  when the channel has a row in that week, to the balance less the recorded sales of
  that row when the week number is below \<open>semana_actual\<close> and to the same balance
  otherwise, floored at 0. The assignment of the week does not enter.
\<close>

lemma bolsa_monotona_por_numero:
  assumes cupos: "\<forall>r \<in> set grupo. Channel r = c \<longrightarrow> 0 \<le> cupo_mensual_canal r"
    and ventas: "\<forall>r \<in> set grupo. Channel r = c \<longrightarrow> 0 \<le> ventas_reales r"
  shows "(\<forall>r rs. filter (\<lambda>r. Channel r = c) grupo = r # rs
            \<longrightarrow> bolsa_de (estado_inicial grupo) c = cupo_mensual_canal r)
       \<and> sorted_wrt (\<lambda>a b. b \<le> a)
           (map (\<lambda>s. bolsa_de s c) (estado_inicial grupo # map fst (traza_sku cfg sa k grupo)))
       \<and> (\<forall>st w. c \<in> fst ` set (canales_data st) \<longrightarrow>
             bolsa_de (fst (procesar_semana cfg sa k grupo cupo st w)) c =
               (case filter (\<lambda>r. Channel r = c) (filter (\<lambda>r. semana_num r = w) grupo) of
                  [] \<Rightarrow> bolsa_de st c
                | row # _ \<Rightarrow>
                    max 0 (bolsa_de st c - (if w < sa then ventas_reales row else 0))))"
proof (intro conjI allI impI)
  fix r rs assume "filter (\<lambda>r. Channel r = c) grupo = r # rs"
  then show "bolsa_de (estado_inicial grupo) c = cupo_mensual_canal r"
    by (rule bolsa_de_inicial)
next
  show "sorted_wrt (\<lambda>a b. b \<le> a)
           (map (\<lambda>s. bolsa_de s c) (estado_inicial grupo # map fst (traza_sku cfg sa k grupo)))"
    unfolding traza_sku_def
    by (rule bolsa_de_traza_sorted [OF ventas bolsa_de_inicial_nonneg [OF cupos]])
next
  fix st :: estado and w :: int
  assume "c \<in> fst ` set (canales_data st)"
  from bolsa_de_tras_semana [OF this, of cfg sa k grupo cupo w]
  show "bolsa_de (fst (procesar_semana cfg sa k grupo cupo st w)) c =
               (case filter (\<lambda>r. Channel r = c) (filter (\<lambda>r. semana_num r = w) grupo) of
                  [] \<Rightarrow> bolsa_de st c
                | row # _ \<Rightarrow>
                    max 0 (bolsa_de st c - (if w < sa then ventas_reales row else 0)))"
    unfolding actualizar_bolsa_def ventas_para_calculo_def .
qed

text \<open>
  C6. The balance starts at the quota and never grows, but by the dates of the month
  table it is not the sales of the closed weeks that are deducted. \<^verbatim>\<open>'Enero 2026'\<close>,
  one channel with quota 100; 10 units are sold in week 53 and 40 in week 1.

  On 2026-01-07 the ISO week is 2. Week 1, from 2026-01-04 to 2026-01-10, is the current
  week and its sales are still accruing, yet 1 is below 2 and the 40 units sold so far
  take the balance from 100 to 60.

  On 2026-01-12 the ISO week is 3. Week 53 ended on 2026-01-03, yet 53 is not below 3
  and its 10 units are not deducted: the balance is 60 before and after week 53.
\<close>

theorem bolsa_por_fechas:
  "semana_iso (2026, 1, 7) = 2
   \<and> \<not> semana_terminada enero_2026 (2026, 1, 7) 1
   \<and> ventas_reales (df_enero_un_canal ! 1) = 40
   \<and> bolsa_de (estado_inicial df_enero_un_canal) ''A'' = 100
   \<and> bolsa_de
        (fst (procesar_semana enero_2026 (semana_iso (2026, 1, 7)) ''S'' df_enero_un_canal
                (cupo_mensual_total_sku (canales_iniciales df_enero_un_canal))
                (estado_inicial df_enero_un_canal) 1)) ''A'' = 60
   \<and> semana_iso (2026, 1, 12) = 3
   \<and> semana_terminada enero_2026 (2026, 1, 12) 53
   \<and> ventas_reales (df_enero_un_canal ! 0) = 10
   \<and> bolsa_de
        (estado_tras enero_2026 (semana_iso (2026, 1, 12)) ''S'' df_enero_un_canal
           (cupo_mensual_total_sku (canales_iniciales df_enero_un_canal))
           (estado_inicial df_enero_un_canal) [1, 2, 3, 4]) ''A'' = 60
   \<and> bolsa_de
        (estado_tras enero_2026 (semana_iso (2026, 1, 12)) ''S'' df_enero_un_canal
           (cupo_mensual_total_sku (canales_iniciales df_enero_un_canal))
           (estado_inicial df_enero_un_canal) [1, 2, 3, 4, 53]) ''A'' = 60
   \<and> cupo_canal_restante
        (fst (calcular_asignacion_semanal_secuencial df_enero_un_canal enero_2026
                (semana_iso (2026, 1, 12))) ! 4) = 60"
  by code_simp

subsection \<open>C7: an exhausted channel gets nothing\<close>

text \<open>
  C7. Take any state of a SKU's pass in which channel \<open>c\<close> has balance 0, the keys of
  \<^verbatim>\<open>canales_data\<close> being distinct as they always are, and let the recorded sales of the
  channel be non-negative. Then every row of channel \<open>c\<close> produced from that state on,
  in the next week and in all the weeks after it, assigns 0 units.
\<close>

theorem agotamiento_detiene_asignacion:
  assumes ventas: "\<forall>r \<in> set grupo. Channel r = c \<longrightarrow> 0 \<le> ventas_reales r"
    and dist: "distinct (map fst (canales_data st))"
    and cero: "bolsa_de st c = 0"
  shows "\<forall>r \<in> set (concat (map snd (procesar_semanas cfg sa k grupo cupo st ws))).
           canal r = c \<longrightarrow> asignacion_canal r = 0"
  using dist cero
proof (induction ws arbitrary: st)
  case Nil
  then show ?case by simp
next
  case (Cons w ws)
  let ?p = "procesar_semana cfg sa k grupo cupo st w"
  have ahora: "\<forall>r \<in> set (snd ?p). canal r = c \<longrightarrow> asignacion_canal r = 0"
  proof (intro ballI impI)
    fix r assume "r \<in> set (snd ?p)" and "canal r = c"
    with asignacion_fila_semana [OF Cons.prems(1)] Cons.prems(2)
    show "asignacion_canal r = 0" by (fastforce simp: asignar_canal_cero)
  qed
  from bolsa_de_semana_le [OF ventas, of st cfg sa k cupo w] Cons.prems(2)
  have "bolsa_de (fst ?p) c = 0" by simp
  from Cons.IH [OF distinct_tras_semana [OF Cons.prems(1)] this] ahora
  show ?case by (auto simp: case_prod_unfold Let_def)
qed

theorem agotamiento_detiene_asignacion_testigo:
  "bolsa_de (fst (procesar_semana config_dos_semanas 2 ''S'' df_dos_canales 200
                    (estado_inicial df_dos_canales) 1)) ''A'' = 0
   \<and> canal (concat (map snd (procesar_semanas config_dos_semanas 2 ''S'' df_dos_canales 200
              (fst (procesar_semana config_dos_semanas 2 ''S'' df_dos_canales 200
                      (estado_inicial df_dos_canales) 1)) [2])) ! 0) = ''A''
   \<and> asignacion_canal (concat (map snd (procesar_semanas config_dos_semanas 2 ''S'' df_dos_canales 200
              (fst (procesar_semana config_dos_semanas 2 ''S'' df_dos_canales 200
                      (estado_inicial df_dos_canales) 1)) [2])) ! 0) = 0"
proof -
  let ?st = "fst (procesar_semana config_dos_semanas 2 ''S'' df_dos_canales 200
                    (estado_inicial df_dos_canales) 1)"
  let ?filas = "concat (map snd (procesar_semanas config_dos_semanas 2 ''S'' df_dos_canales 200 ?st [2]))"
  have h1: "\<forall>r \<in> set df_dos_canales. Channel r = ''A'' \<longrightarrow> 0 \<le> ventas_reales r"
    by code_simp
  have h2: "distinct (map fst (canales_data ?st))" by code_simp
  have h3: "bolsa_de ?st ''A'' = 0" by code_simp
  have "0 < length ?filas" by code_simp
  then have m: "?filas ! 0 \<in> set ?filas" by (rule nth_mem)
  have c: "canal (?filas ! 0) = ''A''" by code_simp
  from agotamiento_detiene_asignacion [OF h1 h2 h3, of config_dos_semanas 2 "''S''" 200 "[2]"] m c
  have "asignacion_canal (?filas ! 0) = 0" by blast
  with h3 c show ?thesis by blast
qed

subsection \<open>C8: the physical inventory of a week\<close>





subsection \<open>C10: no balance is negative\<close>

text \<open>
  C10. Every row of the plan records a balance after the week that is at least 0. After
  a week, every channel of \<^verbatim>\<open>canales_data\<close> that has a row in the week has a balance
  of at least 0, whatever its balance was before, and of exactly 0 when the sales that
  enter the calculation reach or exceed the balance. The step is total: it has no
  failing branch.
\<close>

theorem bolsa_nunca_negativa:
  "(\<forall>r \<in> set (fst (calcular_asignacion_semanal_secuencial df cfg sa)). 0 \<le> cupo_canal_restante r)
   \<and> (\<forall>c \<in> fst ` set (canales_data st).
        filter (\<lambda>r. Channel r = c) (filter (\<lambda>r. semana_num r = w) grupo) \<noteq> [] \<longrightarrow>
        0 \<le> bolsa_de (fst (procesar_semana cfg sa k grupo cupo st w)) c
        \<and> (\<forall>row otras. filter (\<lambda>r. Channel r = c) (filter (\<lambda>r. semana_num r = w) grupo) = row # otras
              \<and> bolsa_de st c \<le> ventas_para_calculo sa w (ventas_reales row)
            \<longrightarrow> bolsa_de (fst (procesar_semana cfg sa k grupo cupo st w)) c = 0))"
proof (intro conjI ballI impI allI)
  fix r assume "r \<in> set (fst (calcular_asignacion_semanal_secuencial df cfg sa))"
  then show "0 \<le> cupo_canal_restante r" by (rule bolsa_nunca_negativa_filas)
next
  fix c assume "c \<in> fst ` set (canales_data st)"
    and "filter (\<lambda>r. Channel r = c) (filter (\<lambda>r. semana_num r = w) grupo) \<noteq> []"
  then show "0 \<le> bolsa_de (fst (procesar_semana cfg sa k grupo cupo st w)) c"
    by (rule bolsa_tras_paso_nonneg)
next
  fix c row otras
  assume "c \<in> fst ` set (canales_data st)"
    and "filter (\<lambda>r. Channel r = c) (filter (\<lambda>r. semana_num r = w) grupo) = row # otras
              \<and> bolsa_de st c \<le> ventas_para_calculo sa w (ventas_reales row)"
  then show "bolsa_de (fst (procesar_semana cfg sa k grupo cupo st w)) c = 0"
    by (simp add: bolsa_de_tras_semana actualizar_bolsa_def)
qed

theorem bolsa_nunca_negativa_testigo:
  "ventas_reales_res
     (fst (calcular_asignacion_semanal_secuencial df_tres_canales config_tres_a_uno 2) ! 0) = 300
   \<and> bolsa_de (estado_inicial df_tres_canales) ''A'' = 100
   \<and> 0 \<le> cupo_canal_restante
            (fst (calcular_asignacion_semanal_secuencial df_tres_canales config_tres_a_uno 2) ! 0)
   \<and> bolsa_de (fst (procesar_semana config_tres_a_uno 2 ''S'' df_tres_canales (803 / 4)
                      (estado_inicial df_tres_canales) 1)) ''A'' = 0"
proof -
  let ?plan = "fst (calcular_asignacion_semanal_secuencial df_tres_canales config_tres_a_uno 2)"
  let ?st = "estado_inicial df_tres_canales"
  have v: "ventas_reales_res (?plan ! 0) = 300" by code_simp
  have b: "bolsa_de ?st ''A'' = 100" by code_simp
  have "0 < length ?plan" by code_simp
  then have m: "?plan ! 0 \<in> set ?plan" by (rule nth_mem)
  have k: "''A'' \<in> fst ` set (canales_data ?st)" by code_simp
  have f: "filter (\<lambda>r. Channel r = ''A'') (filter (\<lambda>r. semana_num r = 1) df_tres_canales)
             = [df_tres_canales ! 0]" by code_simp
  have s: "bolsa_de ?st ''A'' \<le> ventas_para_calculo 2 1 (ventas_reales (df_tres_canales ! 0))"
    by code_simp
  note t = bolsa_nunca_negativa [of df_tres_canales config_tres_a_uno 2 ?st 1 df_tres_canales
      "''S''" "803 / 4"]
  from t m have 1: "0 \<le> cupo_canal_restante (?plan ! 0)" by blast
  from t have "\<forall>c \<in> fst ` set (canales_data ?st).
        filter (\<lambda>r. Channel r = c) (filter (\<lambda>r. semana_num r = 1) df_tres_canales) \<noteq> [] \<longrightarrow>
        0 \<le> bolsa_de (fst (procesar_semana config_tres_a_uno 2 ''S'' df_tres_canales (803 / 4) ?st 1)) c
        \<and> (\<forall>row otras. filter (\<lambda>r. Channel r = c) (filter (\<lambda>r. semana_num r = 1) df_tres_canales) = row # otras
              \<and> bolsa_de ?st c \<le> ventas_para_calculo 2 1 (ventas_reales row)
            \<longrightarrow> bolsa_de (fst (procesar_semana config_tres_a_uno 2 ''S'' df_tres_canales (803 / 4) ?st 1)) c = 0)"
    by (rule conjunct2)
  from bspec [OF this k] f
  have "\<forall>row otras. filter (\<lambda>r. Channel r = ''A'') (filter (\<lambda>r. semana_num r = 1) df_tres_canales) = row # otras
              \<and> bolsa_de ?st ''A'' \<le> ventas_para_calculo 2 1 (ventas_reales row)
            \<longrightarrow> bolsa_de (fst (procesar_semana config_tres_a_uno 2 ''S'' df_tres_canales (803 / 4) ?st 1)) ''A'' = 0"
    by simp
  from this [rule_format, of "df_tres_canales ! 0" "[]"] f s
  have 2: "bolsa_de (fst (procesar_semana config_tres_a_uno 2 ''S'' df_tres_canales (803 / 4) ?st 1))
             ''A'' = 0"
    by simp
  from v b 1 2 show ?thesis by blast
qed

end
